theory Spec2Isabelle
  imports Main "HOL-Library.Word"
begin

unbundle bit_operations_syntax

section \<open>The replay engine of src/replay/lib.ts\<close>

text \<open>
  The engine runs in a browser. Three conventions of the embedding:
  \<^item> a property read on \<^verbatim>\<open>undefined\<close> throws a TypeError: every lookup that can come
    back \<^verbatim>\<open>undefined\<close> is an \<open>option\<close>, and every read through it is a branch
    that returns \<open>Inl TypeError\<close>;
  \<^item> \<^verbatim>\<open>console.assert\<close> and \<^verbatim>\<open>console.warn\<close> write a message and return:
    they are entries of the console log of the \<open>World\<close>, never an exit;
  \<^item> the graphics API is outside the repository: a call to it is an entry of the call
    log of the \<open>World\<close>, and an object it creates is a fresh handle.
  The label and the debugging key of \<^verbatim>\<open>ReplayObject\<close> are read by no function below and
  are left out of the wrappers, as are wrapper fields that only the user interface reads and
  fields of a descriptor or of a command that are handed on to the graphics API without being
  read (clear values, origins, primitive state).
\<close>

subsection \<open>Values of the trace and wrappers\<close>

text \<open>
  Modelled from the spec: the types of the trace (\<^verbatim>\<open>Trace\<close>, \<^verbatim>\<open>TraceBuffer\<close>,
  \<^verbatim>\<open>TraceTexture\<close> and the other descriptors and commands that lib.ts imports from
  \<^verbatim>\<open>../capture\<close>) are not among the sources. The records below hold the fields that
  lib.ts reads from them, with the meaning the data model of the specification gives: data
  blobs by serial, one descriptor map per category, references by serial only.
\<close>

type_synonym serial = nat
type_synonym handle = nat
type_synonym bytes = "8 word list"
type_synonym flags = "32 word"

datatype error = TypeError

datatype ConsoleMsg = AssertFailed string | Warn string

record TraceData =
  td_serial :: serial
  td_size :: int

record GPUExtent3DDictFull =
  width :: int
  height :: int
  depthOrArrayLayers :: int

record ReplayDevice =
  dev_webgpuObject :: handle

text \<open>The queue of a device is a property of the device, not an object created later.\<close>

datatype GPUQueue = QueueOf handle

record ReplayQueue =
  q_device :: ReplayDevice
  q_webgpuObject :: GPUQueue

record TraceBuffer =
  tb_deviceSerial :: serial
  tb_usage :: flags
  tb_size :: int
  tb_state :: string
  tb_initialData :: "TraceData option"

record ReplayBuffer =
  buf_device :: ReplayDevice
  buf_usage :: flags
  buf_size :: int
  buf_webgpuObject :: handle

record TraceTextureInitialData =
  tid_data :: TraceData
  tid_mipLevel :: int
  tid_bytesPerRow :: int

record TraceTexture =
  tt_deviceSerial :: serial
  tt_size :: GPUExtent3DDictFull
  tt_format :: string
  tt_sampleCount :: int
  tt_mipLevelCount :: int
  tt_dimension :: "string option"
  tt_swapChainId :: "string option"
  tt_usage :: flags
  tt_viewFormats :: "string list"
  tt_state :: string
  tt_initialData :: "TraceTextureInitialData list option"

record ReplayTexture =
  tex_device :: ReplayDevice
  tex_size :: GPUExtent3DDictFull
  tex_format :: string
  tex_sampleCount :: int
  tex_mipLevelCount :: int
  tex_dimension :: string
  tex_swapChainId :: "string option"
  tex_webgpuObject :: handle

record ReplayTextureView =
  tv_texture :: ReplayTexture
  tv_baseMipLevel :: int
  tv_webgpuObject :: handle

record ReplayQuerySet =
  qs_webgpuObject :: handle

record ReplayBindGroup =
  bg_webgpuObject :: handle

record ReplayShaderModule =
  sm_webgpuObject :: handle

record ReplayPipelineLayout =
  pl_webgpuObject :: handle


record TraceAdapter =
  ta_powerPreference :: "string option"

record ReplayAdapter =
  ad_webgpuObject :: handle

record TraceDevice =
  tdv_adapterSerial :: serial

record TraceQueue =
  tq_deviceSerial :: serial

record TracePipelineLayout =
  tpl_deviceSerial :: serial
  tpl_bindGroupLayoutsSerial :: "serial list"

record TraceShaderModule =
  tsm_deviceSerial :: serial
  tsm_code :: string

record TraceSampler =
  ts_deviceSerial :: serial

record ReplaySampler =
  smp_webgpuObject :: handle

record TraceTextureView =
  ttv_textureSerial :: serial
  ttv_baseMipLevel :: "int option"

record TraceQuerySet =
  tqs_deviceSerial :: serial

text \<open>
  An entry of a bind group names a texture view, a sampler or a buffer by serial, tested in
  that order, or none of them.
\<close>

datatype BindGroupResource =
    TextureViewResource serial
  | SamplerResource serial
  | BufferResource serial int int
  | NoResource

record TraceBindGroupEntry =
  bge_binding :: nat
  bge_resource :: BindGroupResource

record TraceBindGroup =
  tbg_deviceSerial :: serial
  tbg_layoutSerial :: serial
  tbg_entries :: "TraceBindGroupEntry list"

text \<open>
  A bind-group layout descriptor is explicit (it has \<^verbatim>\<open>entries\<close>) or implicit (it names
  the render pipeline that derives it and the group index); the code tells them apart by
  \<^verbatim>\<open>entries === undefined\<close>.
\<close>

datatype TraceBindGroupLayout =
    TraceExplicitBindGroupLayout serial "nat list"
  | TraceImplicitBindGroupLayout serial serial nat

record ReplayBindGroupLayout =
  bgl_device :: "ReplayDevice option"
  bgl_desc :: TraceBindGroupLayout
  bgl_implicit :: bool
  bgl_webgpuObject :: "handle option"

text \<open>
  A render pipeline descriptor. \<^verbatim>\<open>module\<close> and \<^verbatim>\<open>layout\<close> are the fields that
  \<^verbatim>\<open>ReplayRenderPipeline.recreate\<close> writes into the descriptor it is given.
\<close>

record ProgrammableStage =
  ps_moduleSerial :: serial
  ps_module :: "ReplayShaderModule option"
  ps_entryPoint :: string

datatype LayoutField =
    LayoutAuto
  | LayoutUndefined
  | LayoutWrapper ReplayPipelineLayout

record TraceRenderPipeline =
  trp_deviceSerial :: serial
  trp_vertex :: ProgrammableStage
  trp_fragment :: "ProgrammableStage option"
  trp_layout :: LayoutField
  trp_layoutSerial :: "serial option"

record ReplayRenderPipeline =
  rp_device :: "ReplayDevice option"
  rp_desc :: TraceRenderPipeline
  rp_webgpuObject :: "handle option"

subsection \<open>Commands\<close>

text \<open>
  Resolution clones a trace command and rewrites the clone: it adds the wrapper next to the
  serial and deletes the serial. One type therefore holds a command before and after
  resolution, with every field that can be absent an \<open>option\<close>.
\<close>

record ColorAttachment =
  ca_viewSerial :: "serial option"
  ca_view :: "handle option"
  ca_viewState :: "ReplayTextureView option"
  ca_resolveTargetSerial :: "serial option"
  ca_resolveTarget :: "handle option"
  ca_resolveTargetState :: "ReplayTextureView option"
  ca_loadOp :: string
  ca_storeOp :: string

record DepthStencilAttachment =
  ds_viewSerial :: "serial option"
  ds_view :: "handle option"
  ds_viewState :: "ReplayTextureView option"
  ds_depthStoreOp :: "string option"
  ds_stencilStoreOp :: "string option"

record TimestampWrite =
  tw_querySetSerial :: serial
  tw_queryIndex :: int
  tw_location :: string

record BeginRenderPassArgs =
  colorAttachments :: "ColorAttachment list"
  timestampWrites :: "TimestampWrite list"
  occlusionQuerySetSerial :: "serial option"
  occlusionQuerySetState :: "ReplayQuerySet option"
  occlusionQuerySet :: "ReplayQuerySet option"
  maxDrawCount :: int
  depthStencilAttachment :: "DepthStencilAttachment option"

record ImageCopyBuffer =
  icb_bufferSerial :: serial
  icb_bufferState :: "ReplayBuffer option"
  icb_buffer :: "handle option"
  icb_offset :: int

record ImageCopyTexture =
  ict_textureSerial :: serial
  ict_textureState :: "ReplayTexture option"
  ict_texture :: "handle option"
  ict_mipLevel :: int

record SetBindGroupArgs =
  sbg_index :: nat
  sbg_bindGroupSerial :: "serial option"
  sbg_bindGroup :: "ReplayBindGroup option"

record SetIndexBufferArgs =
  sib_bufferSerial :: "serial option"
  sib_buffer :: "ReplayBuffer option"
  sib_indexFormat :: string
  sib_offset :: int
  sib_size :: int

record SetPipelineArgs =
  sp_pipelineSerial :: "serial option"
  sp_pipeline :: "ReplayRenderPipeline option"

record SetVertexBufferArgs =
  svb_slot :: nat
  svb_bufferSerial :: "serial option"
  svb_buffer :: "ReplayBuffer option"
  svb_offset :: int
  svb_size :: int

record Viewport =
  vp_x :: int
  vp_y :: int
  vp_width :: int
  vp_height :: int
  vp_minDepth :: int
  vp_maxDepth :: int

text \<open>
  The commands of an encoder stream. \<open>RenderPass\<close> is the pseudo-command of
  \<^verbatim>\<open>ReplayCommandBufferCommandRenderPass\<close>: it holds the command list of its
  \<^verbatim>\<open>ReplayRenderPass\<close>. \<open>OtherCommand n\<close> is a command whose name \<open>n\<close> is none of
  the names the engine knows. The second argument of \<open>SetBindGroup\<close> is the field
  \<^verbatim>\<open>dynamicOffsets\<close> that the driver reads on the command itself.
\<close>

datatype EncoderCommand =
    BeginRenderPass BeginRenderPassArgs
  | EndPass
  | CopyBufferToTexture ImageCopyBuffer ImageCopyTexture GPUExtent3DDictFull
  | CopyTextureToTexture ImageCopyTexture ImageCopyTexture GPUExtent3DDictFull
  | PopDebugGroup
  | PushDebugGroup string
  | Draw int int int int
  | DrawIndexed int int int int int
  | SetBindGroup SetBindGroupArgs "nat list option"
  | SetIndexBuffer SetIndexBufferArgs
  | SetPipeline SetPipelineArgs
  | SetVertexBuffer SetVertexBufferArgs
  | SetScissorRect int int int int
  | SetViewport Viewport
  | RenderPass "EncoderCommand list"
  | OtherCommand string

fun name :: "EncoderCommand \<Rightarrow> string" where
  "name (BeginRenderPass _) = ''beginRenderPass''"
| "name EndPass = ''endPass''"
| "name (CopyBufferToTexture _ _ _) = ''copyBufferToTexture''"
| "name (CopyTextureToTexture _ _ _) = ''copyTextureToTexture''"
| "name PopDebugGroup = ''popDebugGroup''"
| "name (PushDebugGroup _) = ''pushDebugGroup''"
| "name (Draw _ _ _ _) = ''draw''"
| "name (DrawIndexed _ _ _ _ _) = ''drawIndexed''"
| "name (SetBindGroup _ _) = ''setBindGroup''"
| "name (SetIndexBuffer _) = ''setIndexBuffer''"
| "name (SetPipeline _) = ''setPipeline''"
| "name (SetVertexBuffer _) = ''setVertexBuffer''"
| "name (SetScissorRect _ _ _ _) = ''setScissorRect''"
| "name (SetViewport _) = ''setViewport''"
| "name (RenderPass _) = ''renderPass''"
| "name (OtherCommand n) = n"

record TraceCommandBuffer =
  tcb_commands :: "EncoderCommand list"

record ReplayCommandBuffer =
  cb_commands :: "EncoderCommand list"

record ImageDataLayout =
  idl_offset :: int
  idl_bytesPerRow :: int
  idl_rowsPerImage :: int

record TraceWriteTextureDestination =
  twd_textureSerial :: serial
  twd_mipLevel :: int
  twd_aspect :: string

record ReplayWriteTextureDestination =
  wd_textureState :: ReplayTexture
  wd_texture :: handle
  wd_mipLevel :: int
  wd_aspect :: string

datatype TraceQueueCommand =
    TraceQueueSubmit serial "serial list"
  | TraceQueueWriteBuffer serial serial int TraceData
  | TraceQueueWriteTexture serial TraceWriteTextureDestination TraceData ImageDataLayout
      GPUExtent3DDictFull
  | TracePresent serial nat
  | TraceTextureDestroy serial
  | TraceBufferUpdateData serial "TraceData list"
  | TraceBufferUnmap serial
  | TraceOtherCommand string

text \<open>
  The trace: the data blobs as arrays of numbers, one optional map from serial to descriptor
  per category, and the command list. A map from serial to descriptor is a JavaScript object
  with the serials as keys. It is held as the list of its properties in the order in which
  \<^verbatim>\<open>for (const k in obj)\<close> visits them: every serial once, in ascending order. The
  registries of the session are objects of the same kind and are held in the same way.
\<close>

record TraceObjects =
  to_adapters :: "(serial \<times> TraceAdapter) list option"
  to_devices :: "(serial \<times> TraceDevice) list option"
  to_queues :: "(serial \<times> TraceQueue) list option"
  to_bindGroupLayouts :: "(serial \<times> TraceBindGroupLayout) list option"
  to_pipelineLayouts :: "(serial \<times> TracePipelineLayout) list option"
  to_shaderModules :: "(serial \<times> TraceShaderModule) list option"
  to_renderPipelines :: "(serial \<times> TraceRenderPipeline) list option"
  to_buffers :: "(serial \<times> TraceBuffer) list option"
  to_samplers :: "(serial \<times> TraceSampler) list option"
  to_textures :: "(serial \<times> TraceTexture) list option"
  to_textureViews :: "(serial \<times> TraceTextureView) list option"
  to_querySets :: "(serial \<times> TraceQuerySet) list option"
  to_bindGroups :: "(serial \<times> TraceBindGroup) list option"
  to_commandBuffers :: "(serial \<times> TraceCommandBuffer) list option"

record Trace =
  t_data :: "(serial \<times> int list) list"
  t_objects :: TraceObjects
  t_commands :: "TraceQueueCommand list"

datatype ReplayQueueCommand =
    QueueSubmit "ReplayQueue option" "ReplayCommandBuffer option list"
  | QueueWriteBuffer "ReplayQueue option" "ReplayBuffer option" int TraceData
  | QueueWriteTexture "ReplayQueue option" ReplayWriteTextureDestination TraceData
      ImageDataLayout GPUExtent3DDictFull
  | Present "ReplayTexture option" nat
  | TextureDestroy "ReplayTexture option"
  | BufferUpdateData "ReplayBuffer option" "TraceData list"
  | BufferUnmap "ReplayBuffer option"
  | BadCommand

subsection \<open>The graphics API and the console\<close>

datatype RenderPassCall =
    CallDraw int int int int
  | CallDrawIndexed int int int int int
  | CallEnd
  | CallPopDebugGroup
  | CallPushDebugGroup string
  | CallSetBindGroup nat handle "nat list option"
  | CallSetIndexBuffer handle string int int
  | CallSetPipeline "handle option"
  | CallSetVertexBuffer nat handle int int
  | CallSetViewport Viewport

datatype EncoderCall =
    EncBeginRenderPass BeginRenderPassArgs
  | EncPass RenderPassCall
  | EncCopyBufferToTexture ImageCopyBuffer ImageCopyTexture GPUExtent3DDictFull
  | EncCopyTextureToTexture ImageCopyTexture ImageCopyTexture GPUExtent3DDictFull
  | EncPopDebugGroup
  | EncPushDebugGroup string

record BufferDescriptor =
  bd_usage :: flags
  bd_size :: int
  bd_mappedAtCreation :: bool

record TextureDescriptor =
  txd_format :: string
  txd_usage :: flags
  txd_size :: GPUExtent3DDictFull
  txd_dimension :: "string option"
  txd_mipLevelCount :: int
  txd_sampleCount :: int
  txd_viewFormats :: "string list"

record RenderPipelineDescriptor =
  rpd_vertexModule :: handle
  rpd_fragmentModule :: "handle option"
  rpd_layout :: "handle option"

datatype GPUBindingResource =
    ViewBinding handle
  | SamplerBinding handle
  | BufferBinding handle int int

text \<open>
  The calls the engine makes on the live context, each with the handle of the object it is
  made on and, for a creation, the handle it returns. \<open>rpd_layout = None\<close> is
  \<^verbatim>\<open>layout: 'auto'\<close>.
\<close>

datatype GPUCall =
    CreateBuffer handle BufferDescriptor handle
  | WriteBuffer GPUQueue handle int bytes
  | CreateTexture handle TextureDescriptor handle
  | DestroyTexture handle
  | WriteTexture GPUQueue handle int bytes int int GPUExtent3DDictFull
  | WriteTextureTo GPUQueue ReplayWriteTextureDestination bytes ImageDataLayout
      GPUExtent3DDictFull
  | RequestAdapter TraceAdapter handle
  | RequestDevice handle handle
  | CreateBindGroupLayout handle TraceBindGroupLayout handle
  | CreatePipelineLayout handle "handle option list" handle
  | CreateShaderModule handle string handle
  | CreateRenderPipelineAsync handle RenderPipelineDescriptor handle
  | GetBindGroupLayout handle nat handle
  | CreateSampler handle handle
  | CreateView handle TraceTextureView handle
  | CreateQuerySet handle handle
  | CreateBindGroup handle "handle option" "(nat \<times> GPUBindingResource option) list" handle
  | CreateCommandEncoder handle
  | Submit GPUQueue "EncoderCall list"

text \<open>
  The value of \<^verbatim>\<open>Replay.state\<close>: the empty object, the object \<^verbatim>\<open>{currentTexture}\<close> of a
  present, the arguments of a begin command, or the snapshot a render pass builds. The
  arrays \<^verbatim>\<open>bindGroups\<close> and \<^verbatim>\<open>vertexBuffers\<close> of the snapshot are written by index and
  can have holes.
\<close>

record RenderPassState =
  rs_viewport :: Viewport
  rs_colorAttachments :: "(ReplayTextureView option \<times> ReplayTextureView option) list"
  rs_depthStencilAttachment :: "ReplayTextureView option"
  rs_pipeline :: "ReplayRenderPipeline option"
  rs_bindGroups :: "(ReplayBindGroup \<times> nat list option) option list"
  rs_vertexBuffers :: "(ReplayBuffer \<times> int \<times> int) option list"
  rs_indexBuffer :: "ReplayBuffer option \<times> int \<times> int"

datatype ReplayState =
    StateEmpty
  | StateCurrentTexture "ReplayTexture option"
  | StateBeginArgs BeginRenderPassArgs
  | StateRenderPass RenderPassState

text \<open>
  Everything a function of the engine can change outside the values it builds: the live
  context (the next fresh handle and the calls made so far), the console, and the two fields
  \<^verbatim>\<open>state\<close> and \<^verbatim>\<open>textureStateToShow\<close> that replay writes on the \<^verbatim>\<open>Replay\<close> object.
\<close>

record World =
  nextHandle :: handle
  calls :: "GPUCall list"
  console :: "ConsoleMsg list"
  state :: ReplayState
  textureStateToShow :: "ReplayTexture option"

text \<open>A name between single quotes, as the messages print it.\<close>

definition quoted :: "string \<Rightarrow> string" where
  "quoted n = CHR 0x27 # n @ [CHR 0x27]"

definition console_assert :: "bool \<Rightarrow> string \<Rightarrow> World \<Rightarrow> World" where
  "console_assert ok msg w = (if ok then w else w\<lparr>console := console w @ [AssertFailed msg]\<rparr>)"

definition console_warn :: "string \<Rightarrow> World \<Rightarrow> World" where
  "console_warn msg w = w\<lparr>console := console w @ [Warn msg]\<rparr>"

definition gpu_call :: "GPUCall \<Rightarrow> World \<Rightarrow> World" where
  "gpu_call c w = w\<lparr>calls := calls w @ [c]\<rparr>"

definition gpu_create :: "(handle \<Rightarrow> GPUCall) \<Rightarrow> World \<Rightarrow> handle \<times> World" where
  "gpu_create mk w =
     (nextHandle w, w\<lparr>nextHandle := Suc (nextHandle w), calls := calls w @ [mk (nextHandle w)]\<rparr>)"


subsection \<open>The session\<close>

text \<open>
  The registries of \<^verbatim>\<open>class Replay\<close> are objects keyed by serial, filled and read in
  insertion order: association lists, looked up with \<open>map_of\<close>.
\<close>

record Replay =
  data :: "(serial \<times> bytes) list"
  adapters :: "(serial \<times> ReplayAdapter) list"
  devices :: "(serial \<times> ReplayDevice) list"
  queues :: "(serial \<times> ReplayQueue) list"
  bindGroupLayouts :: "(serial \<times> ReplayBindGroupLayout) list"
  pipelineLayouts :: "(serial \<times> ReplayPipelineLayout) list"
  shaderModules :: "(serial \<times> ReplayShaderModule) list"
  renderPipelines :: "(serial \<times> ReplayRenderPipeline) list"
  buffers :: "(serial \<times> ReplayBuffer) list"
  samplers :: "(serial \<times> ReplaySampler) list"
  textures :: "(serial \<times> ReplayTexture) list"
  textureViews :: "(serial \<times> ReplayTextureView) list"
  querySets :: "(serial \<times> ReplayQuerySet) list"
  bindGroups :: "(serial \<times> ReplayBindGroup) list"
  commandBuffers :: "(serial \<times> ReplayCommandBuffer) list"
  commands :: "ReplayQueueCommand list"

text \<open>
  \<^verbatim>\<open>getData\<close>: the buffer of a data serial. Reading \<^verbatim>\<open>byteLength\<close> of a missing buffer
  throws; a size that differs is only reported.
\<close>

definition getData :: "Replay \<Rightarrow> TraceData \<Rightarrow> World \<Rightarrow> (error + bytes) \<times> World" where
  "getData replay serializedData w =
     (case map_of (data replay) (td_serial serializedData) of
        None \<Rightarrow> (Inl TypeError, w)
      | Some dataBuf \<Rightarrow>
          (Inr dataBuf, console_assert (int (length dataBuf) = td_size serializedData) [] w))"

subsection \<open>Buffers and textures\<close>

text \<open>The usage flags of the WebGPU interface, \<^verbatim>\<open>GPUBufferUsage\<close> and
  \<^verbatim>\<open>GPUTextureUsage\<close>.\<close>

definition GPUBufferUsage_COPY_SRC :: flags where "GPUBufferUsage_COPY_SRC = 4"
definition GPUBufferUsage_COPY_DST :: flags where "GPUBufferUsage_COPY_DST = 8"
definition GPUTextureUsage_COPY_SRC :: flags where "GPUTextureUsage_COPY_SRC = 1"
definition GPUTextureUsage_COPY_DST :: flags where "GPUTextureUsage_COPY_DST = 2"
definition GPUTextureUsage_TEXTURE_BINDING :: flags where "GPUTextureUsage_TEXTURE_BINDING = 4"

text \<open>The constructor of \<^verbatim>\<open>ReplayBuffer\<close>.\<close>

definition ReplayBuffer_new ::
  "Replay \<Rightarrow> TraceBuffer \<Rightarrow> World \<Rightarrow> (error + ReplayBuffer) \<times> World" where
  "ReplayBuffer_new replay desc w =
     (let w1 = console_assert
                 (tb_state desc = ''unmapped'' \<or> tb_state desc = ''mapped-at-creation'') [] w
      in case map_of (devices replay) (tb_deviceSerial desc) of
           None \<Rightarrow> (Inl TypeError, w1)
         | Some device \<Rightarrow>
             (let (obj, w2) =
                    gpu_create (CreateBuffer (dev_webgpuObject device)
                      \<lparr>bd_usage = tb_usage desc OR GPUBufferUsage_COPY_SRC OR GPUBufferUsage_COPY_DST,
                       bd_size = tb_size desc,
                       bd_mappedAtCreation = (tb_state desc = ''mapped-at-creation'')\<rparr>) w1;
                  this = \<lparr>buf_device = device, buf_usage = tb_usage desc,
                          buf_size = tb_size desc, buf_webgpuObject = obj\<rparr>
              in case tb_initialData desc of
                   None \<Rightarrow> (Inr this, w2)
                 | Some initialData \<Rightarrow>
                     (case getData replay initialData w2 of
                        (Inl e, w3) \<Rightarrow> (Inl e, w3)
                      | (Inr dat, w3) \<Rightarrow>
                          (Inr this,
                           gpu_call (WriteBuffer (QueueOf (dev_webgpuObject device)) obj 0 dat) w3))))"

text \<open>
  The operator \<^verbatim>\<open>>>\<close> of JavaScript: both operands as 32-bit integers, the shift count
  taken modulo 32, the sign kept.
\<close>

definition js_shr :: "int \<Rightarrow> int \<Rightarrow> int" where
  "js_shr a b =
     sint (signed_drop_bit (unat ((word_of_int b :: 32 word) AND 31)) (word_of_int a :: 32 word))"

text \<open>The loop of \<^verbatim>\<open>loadInitialData\<close> over the subresources.\<close>

fun loadSubResources ::
  "Replay \<Rightarrow> ReplayTexture \<Rightarrow> TraceTextureInitialData list \<Rightarrow> World \<Rightarrow> (error + unit) \<times> World" where
  "loadSubResources replay this [] w = (Inr (), w)"
| "loadSubResources replay this (subResource # rest) w =
     (case getData replay (tid_data subResource) w of
        (Inl e, w1) \<Rightarrow> (Inl e, w1)
      | (Inr dat, w1) \<Rightarrow>
          (let mip = tid_mipLevel subResource;
               w' = max 1 (js_shr (width (tex_size this)) mip);
               h' = max 1 (js_shr (height (tex_size this)) mip)
           in loadSubResources replay this rest
                (gpu_call (WriteTexture (QueueOf (dev_webgpuObject (tex_device this)))
                   (tex_webgpuObject this) mip dat (tid_bytesPerRow subResource) h'
                   \<lparr>width = w', height = h',
                    depthOrArrayLayers = depthOrArrayLayers (tex_size this)\<rparr>) w1)))"

definition loadInitialData ::
  "Replay \<Rightarrow> ReplayTexture \<Rightarrow> TraceTextureInitialData list \<Rightarrow> World \<Rightarrow> (error + unit) \<times> World" where
  "loadInitialData replay this initialData w =
     (if tex_sampleCount this \<noteq> 1 then
        (Inr (), console_warn ''No support for sampleCount > 1 texture initial data.'' w)
      else if tex_dimension this \<noteq> ''2d'' then
        (Inr (), console_warn
                   (''No support for dimension != '' @ quoted ''2d'' @ '' texture initial data.'') w)
      else loadSubResources replay this initialData w)"

text \<open>The constructor of \<^verbatim>\<open>ReplayTexture\<close>.\<close>

definition ReplayTexture_new ::
  "Replay \<Rightarrow> TraceTexture \<Rightarrow> World \<Rightarrow> (error + ReplayTexture) \<times> World" where
  "ReplayTexture_new replay desc w =
     (case map_of (devices replay) (tt_deviceSerial desc) of
        None \<Rightarrow> (Inl TypeError, w)
      | Some device \<Rightarrow>
          (let (obj, w1) =
                 gpu_create (CreateTexture (dev_webgpuObject device)
                   \<lparr>txd_format = tt_format desc,
                    txd_usage = tt_usage desc OR GPUTextureUsage_COPY_SRC OR GPUTextureUsage_COPY_DST
                                  OR GPUTextureUsage_TEXTURE_BINDING,
                    txd_size = tt_size desc,
                    txd_dimension = tt_dimension desc,
                    txd_mipLevelCount = tt_mipLevelCount desc,
                    txd_sampleCount = tt_sampleCount desc,
                    txd_viewFormats = tt_viewFormats desc\<rparr>) w;
               this = \<lparr>tex_device = device, tex_size = tt_size desc, tex_format = tt_format desc,
                       tex_sampleCount = tt_sampleCount desc,
                       tex_mipLevelCount = tt_mipLevelCount desc,
                       tex_dimension = (case tt_dimension desc of None \<Rightarrow> ''2d'' | Some d \<Rightarrow> d),
                       tex_swapChainId = tt_swapChainId desc, tex_webgpuObject = obj\<rparr>
           in case tt_initialData desc of
                Some initialData \<Rightarrow>
                  (case loadInitialData replay this initialData w1 of
                     (Inl e, w2) \<Rightarrow> (Inl e, w2)
                   | (Inr _, w2) \<Rightarrow> (Inr this, w2))
              | None \<Rightarrow>
                  if tt_state desc = ''destroyed'' then (Inr this, gpu_call (DestroyTexture obj) w1)
                  else (Inr this, w1)))"

text \<open>The flags of a usage word, as the set of the bits that are on.\<close>

definition usage_bits :: "flags \<Rightarrow> nat set" where
  "usage_bits u = {n. bit u n}"

text \<open>The usage each creation call of a call log asks for.\<close>

fun created_usages :: "GPUCall list \<Rightarrow> flags list" where
  "created_usages [] = []"
| "created_usages (CreateBuffer _ d _ # cs) = bd_usage d # created_usages cs"
| "created_usages (CreateTexture _ d _ # cs) = txd_usage d # created_usages cs"
| "created_usages (_ # cs) = created_usages cs"

fun is_write :: "GPUCall \<Rightarrow> bool" where
  "is_write (WriteBuffer _ _ _ _) = True"
| "is_write (WriteTexture _ _ _ _ _ _ _) = True"
| "is_write (WriteTextureTo _ _ _ _ _) = True"
| "is_write _ = False"

fun is_destroy :: "GPUCall \<Rightarrow> bool" where
  "is_destroy (DestroyTexture _) = True"
| "is_destroy _ = False"

subsection \<open>Resolution of the encoder stream\<close>

text \<open>The message for a render pass whose stream ends before \<^verbatim>\<open>endPass\<close>.\<close>

definition endless :: string where
  "endless = ''BeginRenderPass command doesn't have an associated EndPass.''"

text \<open>A registry read with a serial that may itself be \<^verbatim>\<open>undefined\<close>.\<close>

definition lookup :: "(serial \<times> 'a) list \<Rightarrow> serial option \<Rightarrow> 'a option" where
  "lookup reg s = (case s of None \<Rightarrow> None | Some k \<Rightarrow> map_of reg k)"

text \<open>
  \<^verbatim>\<open>ReplayRenderPass.consumeCommands\<close>. The iterator is the one the command buffer
  reads, and leaving the loop at \<^verbatim>\<open>endPass\<close> does not close it: the function returns the
  commands of the pass together with the part of the stream it has not read. \<open>cmds\<close> is
  \<^verbatim>\<open>this.commands\<close>, which starts as the begin command alone.
\<close>

fun consumePass ::
  "Replay \<Rightarrow> EncoderCommand list \<Rightarrow> EncoderCommand list \<Rightarrow> World
     \<Rightarrow> (EncoderCommand list \<times> EncoderCommand list) \<times> World" where
  "consumePass replay cmds [] w =
     ((cmds, []),
      console_assert False endless w)"
| "consumePass replay cmds (EndPass # rest) w = ((cmds @ [EndPass], rest), w)"
| "consumePass replay cmds (SetBindGroup a d # rest) w =
     consumePass replay
       (cmds @ [SetBindGroup (a\<lparr>sbg_bindGroup := lookup (bindGroups replay) (sbg_bindGroupSerial a),
                                 sbg_bindGroupSerial := None\<rparr>) d]) rest w"
| "consumePass replay cmds (SetIndexBuffer a # rest) w =
     consumePass replay
       (cmds @ [SetIndexBuffer (a\<lparr>sib_buffer := lookup (buffers replay) (sib_bufferSerial a),
                                   sib_bufferSerial := None\<rparr>)]) rest w"
| "consumePass replay cmds (SetPipeline a # rest) w =
     consumePass replay
       (cmds @ [SetPipeline (a\<lparr>sp_pipeline := lookup (renderPipelines replay) (sp_pipelineSerial a),
                                sp_pipelineSerial := None\<rparr>)]) rest w"
| "consumePass replay cmds (SetVertexBuffer a # rest) w =
     consumePass replay
       (cmds @ [SetVertexBuffer (a\<lparr>svb_buffer := lookup (buffers replay) (svb_bufferSerial a),
                                    svb_bufferSerial := None\<rparr>)]) rest w"
| "consumePass replay cmds (Draw a b c d # rest) w =
     consumePass replay (cmds @ [Draw a b c d]) rest w"
| "consumePass replay cmds (DrawIndexed a b c d e # rest) w =
     consumePass replay (cmds @ [DrawIndexed a b c d e]) rest w"
| "consumePass replay cmds (SetViewport v # rest) w =
     consumePass replay (cmds @ [SetViewport v]) rest w"
| "consumePass replay cmds (PushDebugGroup l # rest) w =
     consumePass replay (cmds @ [PushDebugGroup l]) rest w"
| "consumePass replay cmds (PopDebugGroup # rest) w =
     consumePass replay (cmds @ [PopDebugGroup]) rest w"
| "consumePass replay cmds (c # rest) w =
     consumePass replay (cmds @ [c]) rest
       (console_assert False (''Unhandled render pass command type '' @ quoted (name c)) w)"

definition ReplayRenderPass_consumeCommands ::
  "Replay \<Rightarrow> EncoderCommand \<Rightarrow> EncoderCommand list \<Rightarrow> World
     \<Rightarrow> (EncoderCommand list \<times> EncoderCommand list) \<times> World" where
  "ReplayRenderPass_consumeCommands replay beginRenderPassCommand commandIterator w =
     consumePass replay [beginRenderPassCommand] commandIterator w"

text \<open>
  The rewriting of the arguments of \<^verbatim>\<open>beginRenderPass\<close> in
  \<^verbatim>\<open>ReplayCommandBuffer.consumeCommands\<close>. Reading \<^verbatim>\<open>webgpuObject\<close> of a view that
  is not in the registry throws. The test \<^verbatim>\<open>if (a.resolveTargetSerial)\<close> is on the
  truth value of the serial: absent and 0 both skip the branch. A timestamp write of the
  trace has no \<^verbatim>\<open>querySet\<close> field, so \<^verbatim>\<open>w.querySet.webgpuObject\<close> throws whenever
  the list is not empty.
\<close>

definition resolveColorAttachment :: "Replay \<Rightarrow> ColorAttachment \<Rightarrow> error + ColorAttachment" where
  "resolveColorAttachment replay a =
     (case lookup (textureViews replay) (ca_viewSerial a) of
        None \<Rightarrow> Inl TypeError
      | Some viewState \<Rightarrow>
          (let a1 = a\<lparr>ca_viewState := Some viewState,
                      ca_view := Some (tv_webgpuObject viewState),
                      ca_viewSerial := None\<rparr>
           in case ca_resolveTargetSerial a1 of
                None \<Rightarrow> Inr a1
              | Some s \<Rightarrow>
                  if s = 0 then Inr a1
                  else (case map_of (textureViews replay) s of
                          None \<Rightarrow> Inl TypeError
                        | Some resolveTargetState \<Rightarrow>
                            Inr (a1\<lparr>ca_resolveTargetState := Some resolveTargetState,
                                    ca_resolveTarget := Some (tv_webgpuObject resolveTargetState),
                                    ca_resolveTargetSerial := None\<rparr>))))"

fun resolveColorAttachments ::
  "Replay \<Rightarrow> ColorAttachment list \<Rightarrow> error + ColorAttachment list" where
  "resolveColorAttachments replay [] = Inr []"
| "resolveColorAttachments replay (a # as) =
     (case resolveColorAttachment replay a of
        Inl e \<Rightarrow> Inl e
      | Inr a' \<Rightarrow>
          (case resolveColorAttachments replay as of
             Inl e \<Rightarrow> Inl e
           | Inr as' \<Rightarrow> Inr (a' # as')))"

definition resolveDepthStencil ::
  "Replay \<Rightarrow> DepthStencilAttachment option \<Rightarrow> error + DepthStencilAttachment option" where
  "resolveDepthStencil replay ds0 =
     (case ds0 of
        None \<Rightarrow> Inr None
      | Some ds \<Rightarrow>
          (case lookup (textureViews replay) (ds_viewSerial ds) of
             None \<Rightarrow> Inl TypeError
           | Some viewState \<Rightarrow>
               Inr (Some (ds\<lparr>ds_viewState := Some viewState,
                             ds_view := Some (tv_webgpuObject viewState),
                             ds_viewSerial := None\<rparr>))))"

definition resolveBeginRenderPass ::
  "Replay \<Rightarrow> BeginRenderPassArgs \<Rightarrow> error + BeginRenderPassArgs" where
  "resolveBeginRenderPass replay args =
     (case resolveColorAttachments replay (colorAttachments args) of
        Inl e \<Rightarrow> Inl e
      | Inr cas \<Rightarrow>
          (case resolveDepthStencil replay (depthStencilAttachment args) of
             Inl e \<Rightarrow> Inl e
           | Inr ds \<Rightarrow>
               if timestampWrites args \<noteq> [] then Inl TypeError
               else
                 (let args1 = args\<lparr>colorAttachments := cas, depthStencilAttachment := ds\<rparr>
                  in case occlusionQuerySetSerial args1 of
                       None \<Rightarrow> Inr args1
                     | Some s \<Rightarrow>
                         Inr (args1\<lparr>occlusionQuerySetState := map_of (querySets replay) s,
                                    occlusionQuerySet := map_of (querySets replay) s,
                                    occlusionQuerySetSerial := None\<rparr>))))"

text \<open>
  The two copy commands: the wrapper is stored, the handle is written and then deleted again
  (\<^verbatim>\<open>delete c.args.source.buffer\<close>), and the serial stays.
\<close>

definition resolveCopyBuffer :: "Replay \<Rightarrow> ImageCopyBuffer \<Rightarrow> error + ImageCopyBuffer" where
  "resolveCopyBuffer replay src =
     (case map_of (buffers replay) (icb_bufferSerial src) of
        None \<Rightarrow> Inl TypeError
      | Some bufferState \<Rightarrow> Inr (src\<lparr>icb_bufferState := Some bufferState, icb_buffer := None\<rparr>))"

definition resolveCopyTexture :: "Replay \<Rightarrow> ImageCopyTexture \<Rightarrow> error + ImageCopyTexture" where
  "resolveCopyTexture replay t =
     (case map_of (textures replay) (ict_textureSerial t) of
        None \<Rightarrow> Inl TypeError
      | Some textureState \<Rightarrow> Inr (t\<lparr>ict_textureState := Some textureState, ict_texture := None\<rparr>))"

lemma consumePass_rest_length:
  "length (snd (fst (consumePass replay cmds stream w))) \<le> length stream"
  by (induction replay cmds stream w rule: consumePass.induct) (simp_all add: le_SucI)

text \<open>
  \<^verbatim>\<open>ReplayCommandBuffer.consumeCommands\<close>, with \<open>cmds\<close> for \<^verbatim>\<open>this.commands\<close>.
  After a render pass has read its part of the stream the loop goes on with what is left.
\<close>

function consumeBuffer ::
  "Replay \<Rightarrow> EncoderCommand list \<Rightarrow> EncoderCommand list \<Rightarrow> World
     \<Rightarrow> (error + EncoderCommand list) \<times> World" where
  "consumeBuffer replay cmds [] w = (Inr cmds, w)"
| "consumeBuffer replay cmds (BeginRenderPass args # rest) w =
     (case resolveBeginRenderPass replay args of
        Inl e \<Rightarrow> (Inl e, w)
      | Inr args' \<Rightarrow>
          (case ReplayRenderPass_consumeCommands replay (BeginRenderPass args') rest w of
             ((rp, rest'), w1) \<Rightarrow> consumeBuffer replay (cmds @ [RenderPass rp]) rest' w1))"
| "consumeBuffer replay cmds (CopyBufferToTexture src dst sz # rest) w =
     (case resolveCopyBuffer replay src of
        Inl e \<Rightarrow> (Inl e, w)
      | Inr src' \<Rightarrow>
          (case resolveCopyTexture replay dst of
             Inl e \<Rightarrow> (Inl e, w)
           | Inr dst' \<Rightarrow>
               consumeBuffer replay (cmds @ [CopyBufferToTexture src' dst' sz]) rest w))"
| "consumeBuffer replay cmds (CopyTextureToTexture src dst sz # rest) w =
     (case resolveCopyTexture replay src of
        Inl e \<Rightarrow> (Inl e, w)
      | Inr src' \<Rightarrow>
          (case resolveCopyTexture replay dst of
             Inl e \<Rightarrow> (Inl e, w)
           | Inr dst' \<Rightarrow>
               consumeBuffer replay (cmds @ [CopyTextureToTexture src' dst' sz]) rest w))"
| "consumeBuffer replay cmds (PushDebugGroup l # rest) w =
     consumeBuffer replay (cmds @ [PushDebugGroup l]) rest w"
| "consumeBuffer replay cmds (PopDebugGroup # rest) w =
     consumeBuffer replay (cmds @ [PopDebugGroup]) rest w"
| "consumeBuffer replay cmds (EndPass # rest) w =
     consumeBuffer replay (cmds @ [EndPass]) rest
       (console_assert False (''Unhandled command encoder command '' @ quoted (name EndPass)) w)"
| "consumeBuffer replay cmds (Draw a b c d # rest) w =
     consumeBuffer replay (cmds @ [Draw a b c d]) rest
       (console_assert False
          (''Unhandled command encoder command '' @ quoted (name (Draw a b c d))) w)"
| "consumeBuffer replay cmds (DrawIndexed a b c d e # rest) w =
     consumeBuffer replay (cmds @ [DrawIndexed a b c d e]) rest
       (console_assert False
          (''Unhandled command encoder command '' @ quoted (name (DrawIndexed a b c d e))) w)"
| "consumeBuffer replay cmds (SetBindGroup a d # rest) w =
     consumeBuffer replay (cmds @ [SetBindGroup a d]) rest
       (console_assert False
          (''Unhandled command encoder command '' @ quoted (name (SetBindGroup a d))) w)"
| "consumeBuffer replay cmds (SetIndexBuffer a # rest) w =
     consumeBuffer replay (cmds @ [SetIndexBuffer a]) rest
       (console_assert False
          (''Unhandled command encoder command '' @ quoted (name (SetIndexBuffer a))) w)"
| "consumeBuffer replay cmds (SetPipeline a # rest) w =
     consumeBuffer replay (cmds @ [SetPipeline a]) rest
       (console_assert False
          (''Unhandled command encoder command '' @ quoted (name (SetPipeline a))) w)"
| "consumeBuffer replay cmds (SetVertexBuffer a # rest) w =
     consumeBuffer replay (cmds @ [SetVertexBuffer a]) rest
       (console_assert False
          (''Unhandled command encoder command '' @ quoted (name (SetVertexBuffer a))) w)"
| "consumeBuffer replay cmds (SetScissorRect a b c d # rest) w =
     consumeBuffer replay (cmds @ [SetScissorRect a b c d]) rest
       (console_assert False
          (''Unhandled command encoder command '' @ quoted (name (SetScissorRect a b c d))) w)"
| "consumeBuffer replay cmds (SetViewport v # rest) w =
     consumeBuffer replay (cmds @ [SetViewport v]) rest
       (console_assert False
          (''Unhandled command encoder command '' @ quoted (name (SetViewport v))) w)"
| "consumeBuffer replay cmds (RenderPass p # rest) w =
     consumeBuffer replay (cmds @ [RenderPass p]) rest
       (console_assert False
          (''Unhandled command encoder command '' @ quoted (name (RenderPass p))) w)"
| "consumeBuffer replay cmds (OtherCommand n # rest) w =
     consumeBuffer replay (cmds @ [OtherCommand n]) rest
       (console_assert False
          (''Unhandled command encoder command '' @ quoted (name (OtherCommand n))) w)"
  by pat_completeness auto
termination
proof (relation "measure (\<lambda>(replay, cmds, stream, w). length stream)", goal_cases)
  case 1
  show ?case by simp
next
  case (2 replay cmds args rest w args' x w1 rp rest')
  then show ?case
    using consumePass_rest_length [of replay "[BeginRenderPass args']" rest w]
    by (metis ReplayRenderPass_consumeCommands_def fst_conv snd_conv in_measure
        case_prod_conv le_imp_less_Suc length_Cons)
qed simp_all

text \<open>The constructor of \<^verbatim>\<open>ReplayCommandBuffer\<close>.\<close>

definition ReplayCommandBuffer_new ::
  "Replay \<Rightarrow> TraceCommandBuffer \<Rightarrow> World \<Rightarrow> (error + ReplayCommandBuffer) \<times> World" where
  "ReplayCommandBuffer_new replay desc w =
     (case consumeBuffer replay [] (tcb_commands desc) w of
        (Inl e, w') \<Rightarrow> (Inl e, w')
      | (Inr cmds, w') \<Rightarrow> (Inr \<lparr>cb_commands = cmds\<rparr>, w'))"

subsection \<open>Resolution of the queue commands\<close>

text \<open>
  The body of \<^verbatim>\<open>trace.commands.map\<close> in \<^verbatim>\<open>Replay.load\<close>. Only
  \<^verbatim>\<open>queueWriteTexture\<close> reads through a lookup (\<^verbatim>\<open>textureState.webgpuObject\<close>) and can
  throw; every other lookup is stored as it comes back.
\<close>

fun loadCommand ::
  "Replay \<Rightarrow> TraceQueueCommand \<Rightarrow> World \<Rightarrow> (error + ReplayQueueCommand) \<times> World" where
  "loadCommand replay (TraceQueueSubmit queueSerial commandBufferSerials) w =
     (Inr (QueueSubmit (map_of (queues replay) queueSerial)
             (map (map_of (commandBuffers replay)) commandBufferSerials)), w)"
| "loadCommand replay (TraceQueueWriteBuffer queueSerial bufferSerial bufferOffset d) w =
     (Inr (QueueWriteBuffer (map_of (queues replay) queueSerial)
             (map_of (buffers replay) bufferSerial) bufferOffset d), w)"
| "loadCommand replay (TraceQueueWriteTexture queueSerial destination d dataLayout sz) w =
     (case map_of (textures replay) (twd_textureSerial destination) of
        None \<Rightarrow> (Inl TypeError, w)
      | Some textureState \<Rightarrow>
          (Inr (QueueWriteTexture (map_of (queues replay) queueSerial)
                  \<lparr>wd_textureState = textureState, wd_texture = tex_webgpuObject textureState,
                   wd_mipLevel = twd_mipLevel destination, wd_aspect = twd_aspect destination\<rparr>
                  d dataLayout sz), w))"
| "loadCommand replay (TracePresent textureSerial canvasContextSerial) w =
     (Inr (Present (map_of (textures replay) textureSerial) canvasContextSerial), w)"
| "loadCommand replay (TraceTextureDestroy textureSerial) w =
     (Inr (TextureDestroy (map_of (textures replay) textureSerial)), w)"
| "loadCommand replay (TraceBufferUpdateData bufferSerial updates) w =
     (Inr (BufferUpdateData (map_of (buffers replay) bufferSerial) updates), w)"
| "loadCommand replay (TraceBufferUnmap bufferSerial) w =
     (Inr (BufferUnmap (map_of (buffers replay) bufferSerial)), w)"
| "loadCommand replay (TraceOtherCommand n) w =
     (Inr BadCommand, console_assert False (''Unhandled command type '' @ quoted n) w)"

fun loadCommands ::
  "Replay \<Rightarrow> TraceQueueCommand list \<Rightarrow> World \<Rightarrow> (error + ReplayQueueCommand list) \<times> World" where
  "loadCommands replay [] w = (Inr [], w)"
| "loadCommands replay (command # rest) w =
     (case loadCommand replay command w of
        (Inl e, w1) \<Rightarrow> (Inl e, w1)
      | (Inr c, w1) \<Rightarrow>
          (case loadCommands replay rest w1 of
             (Inl e, w2) \<Rightarrow> (Inl e, w2)
           | (Inr cs, w2) \<Rightarrow> (Inr (c # cs), w2)))"



subsection \<open>Reconstruction of the objects\<close>

text \<open>
  The two helpers of \<^verbatim>\<open>Replay.load\<close>. \<^verbatim>\<open>recreateObjects\<close> builds the wrappers in the order
  in which \<^verbatim>\<open>for (const traceSerial in descMap)\<close> visits the map, which is the order of the
  list that holds it, and stops at the first constructor that throws. \<^verbatim>\<open>recreateObjectsAsync\<close>
  starts \<^verbatim>\<open>recreate\<close> on every descriptor, since a throw inside an async function only
  rejects its promise, and fails afterwards if one of them failed. Both return \<^verbatim>\<open>{}\<close> for
  a category that is absent from the trace, which the destructuring assignment of the caller
  cannot iterate: that is \<open>absent\<close>. The maps from live object to wrapper that both also
  build are read by no function of the engine and are left out.
\<close>

fun recreateObjects ::
  "('d \<Rightarrow> World \<Rightarrow> (error + 'o) \<times> World) \<Rightarrow> (serial \<times> 'd) list \<Rightarrow> World
     \<Rightarrow> (error + (serial \<times> 'o) list) \<times> World" where
  "recreateObjects mk [] w = (Inr [], w)"
| "recreateObjects mk ((traceSerial, desc) # rest) w =
     (case mk desc w of
        (Inl e, w1) \<Rightarrow> (Inl e, w1)
      | (Inr obj, w1) \<Rightarrow>
          (case recreateObjects mk rest w1 of
             (Inl e, w2) \<Rightarrow> (Inl e, w2)
           | (Inr objs, w2) \<Rightarrow> (Inr ((traceSerial, obj) # objs), w2)))"

fun recreateObjectsAsync ::
  "('d \<Rightarrow> World \<Rightarrow> (error + 'o) \<times> World) \<Rightarrow> (serial \<times> 'd) list \<Rightarrow> World
     \<Rightarrow> (error + (serial \<times> 'o) list) \<times> World" where
  "recreateObjectsAsync mk [] w = (Inr [], w)"
| "recreateObjectsAsync mk ((traceSerial, desc) # rest) w =
     (case mk desc w of
        (r, w1) \<Rightarrow>
          (case recreateObjectsAsync mk rest w1 of
             (rs, w2) \<Rightarrow>
               ((case r of
                   Inl e \<Rightarrow> Inl e
                 | Inr obj \<Rightarrow>
                     (case rs of
                        Inl e \<Rightarrow> Inl e
                      | Inr objs \<Rightarrow> Inr ((traceSerial, obj) # objs))), w2)))"

definition absent ::
  "'a option \<Rightarrow> ('a \<Rightarrow> World \<Rightarrow> (error + 'b) \<times> World) \<Rightarrow> World \<Rightarrow> (error + 'b) \<times> World" where
  "absent descMap f w = (case descMap of None \<Rightarrow> (Inl TypeError, w) | Some m \<Rightarrow> f m w)"

text \<open>The wrappers of the simple categories: a lookup of the owner, which throws when it is
  read through and missing, and one creation call.\<close>

definition ReplayAdapter_recreate ::
  "TraceAdapter \<Rightarrow> World \<Rightarrow> (error + ReplayAdapter) \<times> World" where
  "ReplayAdapter_recreate desc w =
     (case gpu_create (RequestAdapter desc) w of
        (obj, w1) \<Rightarrow> (Inr \<lparr>ad_webgpuObject = obj\<rparr>, w1))"

definition ReplayDevice_recreate ::
  "Replay \<Rightarrow> TraceDevice \<Rightarrow> World \<Rightarrow> (error + ReplayDevice) \<times> World" where
  "ReplayDevice_recreate replay desc w =
     (case map_of (adapters replay) (tdv_adapterSerial desc) of
        None \<Rightarrow> (Inl TypeError, w)
      | Some adapter \<Rightarrow>
          (case gpu_create (RequestDevice (ad_webgpuObject adapter)) w of
             (obj, w1) \<Rightarrow> (Inr \<lparr>dev_webgpuObject = obj\<rparr>, w1)))"

definition ReplayQueue_new :: "Replay \<Rightarrow> TraceQueue \<Rightarrow> World \<Rightarrow> (error + ReplayQueue) \<times> World" where
  "ReplayQueue_new replay desc w =
     (case map_of (devices replay) (tq_deviceSerial desc) of
        None \<Rightarrow> (Inl TypeError, w)
      | Some device \<Rightarrow>
          (Inr \<lparr>q_device = device, q_webgpuObject = QueueOf (dev_webgpuObject device)\<rparr>, w))"

text \<open>
  The constructor of \<^verbatim>\<open>ReplayBindGroupLayout\<close>: an implicit layout returns before anything
  is read through the device or created.
\<close>

fun layoutDeviceSerial :: "TraceBindGroupLayout \<Rightarrow> serial" where
  "layoutDeviceSerial (TraceExplicitBindGroupLayout deviceSerial _) = deviceSerial"
| "layoutDeviceSerial (TraceImplicitBindGroupLayout deviceSerial _ _) = deviceSerial"

fun entriesUndefined :: "TraceBindGroupLayout \<Rightarrow> bool" where
  "entriesUndefined (TraceExplicitBindGroupLayout _ _) = False"
| "entriesUndefined (TraceImplicitBindGroupLayout _ _ _) = True"

definition ReplayBindGroupLayout_new ::
  "Replay \<Rightarrow> TraceBindGroupLayout \<Rightarrow> World \<Rightarrow> (error + ReplayBindGroupLayout) \<times> World" where
  "ReplayBindGroupLayout_new replay desc w =
     (let this = \<lparr>bgl_device = map_of (devices replay) (layoutDeviceSerial desc),
                  bgl_desc = desc, bgl_implicit = entriesUndefined desc,
                  bgl_webgpuObject = None\<rparr>
      in if bgl_implicit this then (Inr this, w)
         else (case bgl_device this of
                 None \<Rightarrow> (Inl TypeError, w)
               | Some device \<Rightarrow>
                   (case gpu_create (CreateBindGroupLayout (dev_webgpuObject device) desc) w of
                      (obj, w1) \<Rightarrow> (Inr (this\<lparr>bgl_webgpuObject := Some obj\<rparr>), w1))))"

text \<open>\<^verbatim>\<open>ReplayBindGroupLayout.initializeFromImplicitDesc\<close>. An explicit descriptor has no
  \<^verbatim>\<open>renderPipelineSerial\<close>, so the lookup finds nothing.\<close>

definition initializeFromImplicitDesc ::
  "Replay \<Rightarrow> ReplayBindGroupLayout \<Rightarrow> World \<Rightarrow> (error + ReplayBindGroupLayout) \<times> World" where
  "initializeFromImplicitDesc replay this w =
     (case bgl_desc this of
        TraceExplicitBindGroupLayout _ _ \<Rightarrow> (Inl TypeError, w)
      | TraceImplicitBindGroupLayout _ renderPipelineSerial groupIndex \<Rightarrow>
          (case map_of (renderPipelines replay) renderPipelineSerial of
             None \<Rightarrow> (Inl TypeError, w)
           | Some pipeline \<Rightarrow>
               (case rp_webgpuObject pipeline of
                  None \<Rightarrow> (Inl TypeError, w)
                | Some p \<Rightarrow>
                    (case gpu_create (GetBindGroupLayout p groupIndex) w of
                       (obj, w1) \<Rightarrow> (Inr (this\<lparr>bgl_webgpuObject := Some obj\<rparr>), w1)))))"

text \<open>The loop of \<^verbatim>\<open>Replay.load\<close> over \<^verbatim>\<open>this.bindGroupLayouts\<close> that initializes the
  implicit layouts.\<close>

fun initializeImplicitLayouts ::
  "Replay \<Rightarrow> (serial \<times> ReplayBindGroupLayout) list \<Rightarrow> World
     \<Rightarrow> (error + (serial \<times> ReplayBindGroupLayout) list) \<times> World" where
  "initializeImplicitLayouts replay [] w = (Inr [], w)"
| "initializeImplicitLayouts replay ((i, layout) # rest) w =
     (case (if bgl_implicit layout then initializeFromImplicitDesc replay layout w
            else (Inr layout, w)) of
        (Inl e, w1) \<Rightarrow> (Inl e, w1)
      | (Inr layout', w1) \<Rightarrow>
          (case initializeImplicitLayouts replay rest w1 of
             (Inl e, w2) \<Rightarrow> (Inl e, w2)
           | (Inr rest', w2) \<Rightarrow> (Inr ((i, layout') # rest'), w2)))"

fun layoutHandles ::
  "Replay \<Rightarrow> serial list \<Rightarrow> error + handle option list" where
  "layoutHandles replay [] = Inr []"
| "layoutHandles replay (s # rest) =
     (case map_of (bindGroupLayouts replay) s of
        None \<Rightarrow> Inl TypeError
      | Some layout \<Rightarrow>
          (case layoutHandles replay rest of
             Inl e \<Rightarrow> Inl e
           | Inr hs \<Rightarrow> Inr (bgl_webgpuObject layout # hs)))"

definition ReplayPipelineLayout_new ::
  "Replay \<Rightarrow> TracePipelineLayout \<Rightarrow> World \<Rightarrow> (error + ReplayPipelineLayout) \<times> World" where
  "ReplayPipelineLayout_new replay desc w =
     (case map_of (devices replay) (tpl_deviceSerial desc) of
        None \<Rightarrow> (Inl TypeError, w)
      | Some device \<Rightarrow>
          (case layoutHandles replay (tpl_bindGroupLayoutsSerial desc) of
             Inl e \<Rightarrow> (Inl e, w)
           | Inr hs \<Rightarrow>
               (case gpu_create (CreatePipelineLayout (dev_webgpuObject device) hs) w of
                  (obj, w1) \<Rightarrow> (Inr \<lparr>pl_webgpuObject = obj\<rparr>, w1))))"

definition ReplayShaderModule_new ::
  "Replay \<Rightarrow> TraceShaderModule \<Rightarrow> World \<Rightarrow> (error + ReplayShaderModule) \<times> World" where
  "ReplayShaderModule_new replay desc w =
     (case map_of (devices replay) (tsm_deviceSerial desc) of
        None \<Rightarrow> (Inl TypeError, w)
      | Some device \<Rightarrow>
          (case gpu_create (CreateShaderModule (dev_webgpuObject device) (tsm_code desc)) w of
             (obj, w1) \<Rightarrow> (Inr \<lparr>sm_webgpuObject = obj\<rparr>, w1)))"

text \<open>
  The constructor of \<^verbatim>\<open>ReplayRenderPipeline\<close> followed by \<^verbatim>\<open>recreate\<close>. The wrapper keeps
  the descriptor it is given (\<^verbatim>\<open>this.desc = desc\<close>, no copy), so the writes of
  \<^verbatim>\<open>recreate\<close> to \<^verbatim>\<open>this.desc.vertex.module\<close>, \<^verbatim>\<open>this.desc.fragment.module\<close> and
  \<^verbatim>\<open>desc.layout\<close> are writes to the descriptor object of the trace. The function returns
  that object as it is after the writes, next to the outcome; the writes made before a
  throw stay.
\<close>

definition ReplayRenderPipeline_recreate ::
  "Replay \<Rightarrow> TraceRenderPipeline \<Rightarrow> World
     \<Rightarrow> ((error + ReplayRenderPipeline) \<times> TraceRenderPipeline) \<times> World" where
  "ReplayRenderPipeline_recreate replay desc w =
     (let device = map_of (devices replay) (trp_deviceSerial desc);
          vsModule = map_of (shaderModules replay) (ps_moduleSerial (trp_vertex desc));
          desc1 = desc\<lparr>trp_vertex := (trp_vertex desc)\<lparr>ps_module := vsModule\<rparr>\<rparr>
      in case vsModule of
           None \<Rightarrow> ((Inl TypeError, desc1), w)
         | Some vs \<Rightarrow>
             (case (case trp_fragment desc1 of
                      None \<Rightarrow> (Inr None, desc1)
                    | Some fragment \<Rightarrow>
                        (let fsModule = map_of (shaderModules replay) (ps_moduleSerial fragment);
                             desc2 = desc1\<lparr>trp_fragment := Some (fragment\<lparr>ps_module := fsModule\<rparr>)\<rparr>
                         in case fsModule of
                              None \<Rightarrow> (Inl TypeError, desc2)
                            | Some fs \<Rightarrow> (Inr (Some (sm_webgpuObject fs)), desc2))) of
                (Inl e, desc2) \<Rightarrow> ((Inl e, desc2), w)
              | (Inr fsHandle, desc2) \<Rightarrow>
                  (case (if trp_layout desc2 = LayoutAuto then (Inr None, desc2)
                         else (case lookup (pipelineLayouts replay) (trp_layoutSerial desc2) of
                                 None \<Rightarrow> (Inl TypeError, desc2\<lparr>trp_layout := LayoutUndefined\<rparr>)
                               | Some layout \<Rightarrow>
                                   (Inr (Some (pl_webgpuObject layout)),
                                    desc2\<lparr>trp_layout := LayoutWrapper layout\<rparr>))) of
                     (Inl e, desc3) \<Rightarrow> ((Inl e, desc3), w)
                   | (Inr layoutHandle, desc3) \<Rightarrow>
                       (case device of
                          None \<Rightarrow> ((Inl TypeError, desc3), w)
                        | Some dev \<Rightarrow>
                            (case gpu_create
                                    (CreateRenderPipelineAsync (dev_webgpuObject dev)
                                       \<lparr>rpd_vertexModule = sm_webgpuObject vs,
                                        rpd_fragmentModule = fsHandle,
                                        rpd_layout = layoutHandle\<rparr>) w of
                               (obj, w1) \<Rightarrow>
                                 ((Inr \<lparr>rp_device = device, rp_desc = desc3,
                                        rp_webgpuObject = Some obj\<rparr>, desc3), w1))))))"

text \<open>\<^verbatim>\<open>recreateObjectsAsync\<close> for the render pipelines, with the descriptors of the trace
  as \<^verbatim>\<open>recreate\<close> leaves them.\<close>

fun recreateRenderPipelines ::
  "Replay \<Rightarrow> (serial \<times> TraceRenderPipeline) list \<Rightarrow> World
     \<Rightarrow> ((error + (serial \<times> ReplayRenderPipeline) list) \<times> (serial \<times> TraceRenderPipeline) list)
        \<times> World" where
  "recreateRenderPipelines replay [] w = ((Inr [], []), w)"
| "recreateRenderPipelines replay ((traceSerial, desc) # rest) w =
     (case ReplayRenderPipeline_recreate replay desc w of
        ((r, desc'), w1) \<Rightarrow>
          (case recreateRenderPipelines replay rest w1 of
             ((rs, rest'), w2) \<Rightarrow>
               (((case r of
                    Inl e \<Rightarrow> Inl e
                  | Inr obj \<Rightarrow>
                      (case rs of
                         Inl e \<Rightarrow> Inl e
                       | Inr objs \<Rightarrow> Inr ((traceSerial, obj) # objs))),
                 (traceSerial, desc') # rest'), w2)))"

definition ReplaySampler_new ::
  "Replay \<Rightarrow> TraceSampler \<Rightarrow> World \<Rightarrow> (error + ReplaySampler) \<times> World" where
  "ReplaySampler_new replay desc w =
     (case map_of (devices replay) (ts_deviceSerial desc) of
        None \<Rightarrow> (Inl TypeError, w)
      | Some device \<Rightarrow>
          (case gpu_create (CreateSampler (dev_webgpuObject device)) w of
             (obj, w1) \<Rightarrow> (Inr \<lparr>smp_webgpuObject = obj\<rparr>, w1)))"

definition ReplayTextureView_new ::
  "Replay \<Rightarrow> TraceTextureView \<Rightarrow> World \<Rightarrow> (error + ReplayTextureView) \<times> World" where
  "ReplayTextureView_new replay desc w =
     (case map_of (textures replay) (ttv_textureSerial desc) of
        None \<Rightarrow> (Inl TypeError, w)
      | Some texture \<Rightarrow>
          (case gpu_create (CreateView (tex_webgpuObject texture) desc) w of
             (obj, w1) \<Rightarrow>
               (Inr \<lparr>tv_texture = texture,
                     tv_baseMipLevel = (case ttv_baseMipLevel desc of None \<Rightarrow> 0 | Some b \<Rightarrow> b),
                     tv_webgpuObject = obj\<rparr>, w1)))"

definition ReplayQuerySet_new ::
  "Replay \<Rightarrow> TraceQuerySet \<Rightarrow> World \<Rightarrow> (error + ReplayQuerySet) \<times> World" where
  "ReplayQuerySet_new replay desc w =
     (case map_of (devices replay) (tqs_deviceSerial desc) of
        None \<Rightarrow> (Inl TypeError, w)
      | Some device \<Rightarrow>
          (case gpu_create (CreateQuerySet (dev_webgpuObject device)) w of
             (obj, w1) \<Rightarrow> (Inr \<lparr>qs_webgpuObject = obj\<rparr>, w1)))"

fun bindGroupEntry ::
  "Replay \<Rightarrow> TraceBindGroupEntry \<Rightarrow> error + nat \<times> GPUBindingResource option" where
  "bindGroupEntry replay e =
     (case bge_resource e of
        TextureViewResource s \<Rightarrow>
          (case map_of (textureViews replay) s of
             None \<Rightarrow> Inl TypeError
           | Some v \<Rightarrow> Inr (bge_binding e, Some (ViewBinding (tv_webgpuObject v))))
      | SamplerResource s \<Rightarrow>
          (case map_of (samplers replay) s of
             None \<Rightarrow> Inl TypeError
           | Some v \<Rightarrow> Inr (bge_binding e, Some (SamplerBinding (smp_webgpuObject v))))
      | BufferResource s offset sz \<Rightarrow>
          (case map_of (buffers replay) s of
             None \<Rightarrow> Inl TypeError
           | Some b \<Rightarrow> Inr (bge_binding e, Some (BufferBinding (buf_webgpuObject b) offset sz)))
      | NoResource \<Rightarrow> Inr (bge_binding e, None))"

fun bindGroupEntries ::
  "Replay \<Rightarrow> TraceBindGroupEntry list \<Rightarrow> error + (nat \<times> GPUBindingResource option) list" where
  "bindGroupEntries replay [] = Inr []"
| "bindGroupEntries replay (e # rest) =
     (case bindGroupEntry replay e of
        Inl err \<Rightarrow> Inl err
      | Inr x \<Rightarrow>
          (case bindGroupEntries replay rest of
             Inl err \<Rightarrow> Inl err
           | Inr xs \<Rightarrow> Inr (x # xs)))"

definition ReplayBindGroup_new ::
  "Replay \<Rightarrow> TraceBindGroup \<Rightarrow> World \<Rightarrow> (error + ReplayBindGroup) \<times> World" where
  "ReplayBindGroup_new replay desc w =
     (case map_of (devices replay) (tbg_deviceSerial desc) of
        None \<Rightarrow> (Inl TypeError, w)
      | Some device \<Rightarrow>
          (case map_of (bindGroupLayouts replay) (tbg_layoutSerial desc) of
             None \<Rightarrow> (Inl TypeError, w)
           | Some layout \<Rightarrow>
               (case bindGroupEntries replay (tbg_entries desc) of
                  Inl e \<Rightarrow> (Inl e, w)
                | Inr es \<Rightarrow>
                    (case gpu_create (CreateBindGroup (dev_webgpuObject device)
                                        (bgl_webgpuObject layout) es) w of
                       (obj, w1) \<Rightarrow> (Inr \<lparr>bg_webgpuObject = obj\<rparr>, w1)))))"

text \<open>
  \<^verbatim>\<open>Replay.load\<close> is a sequence of phases. A phase takes the session built so far, fills
  one registry and reads the ones before it; the first phase that throws ends the load.
\<close>

type_synonym phase = "Replay \<Rightarrow> World \<Rightarrow> (error + Replay) \<times> World"

fun run_phases :: "phase list \<Rightarrow> phase" where
  "run_phases [] replay w = (Inr replay, w)"
| "run_phases (p # ps) replay w =
     (case p replay w of
        (Inl e, w1) \<Rightarrow> (Inl e, w1)
      | (Inr replay1, w1) \<Rightarrow> run_phases ps replay1 w1)"

definition recreatePhase ::
  "(Replay \<Rightarrow> 'd \<Rightarrow> World \<Rightarrow> (error + 'o) \<times> World) \<Rightarrow> (serial \<times> 'd) list option
     \<Rightarrow> ((serial \<times> 'o) list \<Rightarrow> Replay \<Rightarrow> Replay) \<Rightarrow> phase" where
  "recreatePhase mk descMap store replay w =
     (case descMap of
        None \<Rightarrow> (Inl TypeError, w)
      | Some m \<Rightarrow>
          (case recreateObjects (mk replay) m w of
             (Inl e, w1) \<Rightarrow> (Inl e, w1)
           | (Inr objs, w1) \<Rightarrow> (Inr (store objs replay), w1)))"

definition recreatePhaseAsync ::
  "(Replay \<Rightarrow> 'd \<Rightarrow> World \<Rightarrow> (error + 'o) \<times> World) \<Rightarrow> (serial \<times> 'd) list option
     \<Rightarrow> ((serial \<times> 'o) list \<Rightarrow> Replay \<Rightarrow> Replay) \<Rightarrow> phase" where
  "recreatePhaseAsync mk descMap store replay w =
     (case descMap of
        None \<Rightarrow> (Inl TypeError, w)
      | Some m \<Rightarrow>
          (case recreateObjectsAsync (mk replay) m w of
             (Inl e, w1) \<Rightarrow> (Inl e, w1)
           | (Inr objs, w1) \<Rightarrow> (Inr (store objs replay), w1)))"

definition implicitLayoutsPhase :: phase where
  "implicitLayoutsPhase replay w =
     (case initializeImplicitLayouts replay (bindGroupLayouts replay) w of
        (Inl e, w1) \<Rightarrow> (Inl e, w1)
      | (Inr layouts, w1) \<Rightarrow> (Inr (replay\<lparr>bindGroupLayouts := layouts\<rparr>), w1))"

definition commandsPhase :: "TraceQueueCommand list \<Rightarrow> phase" where
  "commandsPhase traceCommands replay w =
     (case loadCommands replay traceCommands w of
        (Inl e, w1) \<Rightarrow> (Inl e, w1)
      | (Inr cs, w1) \<Rightarrow> (Inr (replay\<lparr>commands := cs\<rparr>), w1))"

definition emptyReplay :: Replay where
  "emptyReplay =
     \<lparr>data = [], adapters = [], devices = [], queues = [], bindGroupLayouts = [],
      pipelineLayouts = [], shaderModules = [], renderPipelines = [], buffers = [],
      samplers = [], textures = [], textureViews = [], querySets = [], bindGroups = [],
      commandBuffers = [], commands = []\<rparr>"

text \<open>The phases of \<^verbatim>\<open>Replay.load\<close> before the render pipelines, and those after them.\<close>

definition phasesBeforePipelines :: "TraceObjects \<Rightarrow> phase list" where
  "phasesBeforePipelines objs =
     [recreatePhaseAsync (\<lambda>replay. ReplayAdapter_recreate) (to_adapters objs)
        (\<lambda>x replay. replay\<lparr>adapters := x\<rparr>),
      recreatePhaseAsync ReplayDevice_recreate (to_devices objs)
        (\<lambda>x replay. replay\<lparr>devices := x\<rparr>),
      recreatePhase ReplayQueue_new (to_queues objs) (\<lambda>x replay. replay\<lparr>queues := x\<rparr>),
      recreatePhase ReplayBindGroupLayout_new (to_bindGroupLayouts objs)
        (\<lambda>x replay. replay\<lparr>bindGroupLayouts := x\<rparr>),
      recreatePhase ReplayPipelineLayout_new (to_pipelineLayouts objs)
        (\<lambda>x replay. replay\<lparr>pipelineLayouts := x\<rparr>),
      recreatePhase ReplayShaderModule_new (to_shaderModules objs)
        (\<lambda>x replay. replay\<lparr>shaderModules := x\<rparr>)]"

definition phasesAfterPipelines :: "Trace \<Rightarrow> phase list" where
  "phasesAfterPipelines trace =
     [implicitLayoutsPhase,
      recreatePhase ReplayBuffer_new (to_buffers (t_objects trace))
        (\<lambda>x replay. replay\<lparr>buffers := x\<rparr>),
      recreatePhase ReplaySampler_new (to_samplers (t_objects trace))
        (\<lambda>x replay. replay\<lparr>samplers := x\<rparr>),
      recreatePhase ReplayTexture_new (to_textures (t_objects trace))
        (\<lambda>x replay. replay\<lparr>textures := x\<rparr>),
      recreatePhase ReplayTextureView_new (to_textureViews (t_objects trace))
        (\<lambda>x replay. replay\<lparr>textureViews := x\<rparr>),
      recreatePhase ReplayQuerySet_new (to_querySets (t_objects trace))
        (\<lambda>x replay. replay\<lparr>querySets := x\<rparr>),
      recreatePhase ReplayBindGroup_new (to_bindGroups (t_objects trace))
        (\<lambda>x replay. replay\<lparr>bindGroups := x\<rparr>),
      recreatePhase ReplayCommandBuffer_new (to_commandBuffers (t_objects trace))
        (\<lambda>x replay. replay\<lparr>commandBuffers := x\<rparr>),
      commandsPhase (t_commands trace)]"

text \<open>
  \<^verbatim>\<open>Replay.load\<close>. The data blobs are copied into byte arrays, which keeps each number
  modulo 256. The render pipelines are the one category whose reconstruction writes to the
  descriptors: the result holds, next to the session, the trace as the load leaves it.
\<close>

definition load :: "Trace \<Rightarrow> World \<Rightarrow> ((error + Replay) \<times> Trace) \<times> World" where
  "load trace w =
     (let replay0 = emptyReplay\<lparr>data := map (\<lambda>(dataSerial, badArray).
                                                (dataSerial, map word_of_int badArray))
                                          (t_data trace)\<rparr>
      in case run_phases (phasesBeforePipelines (t_objects trace)) replay0 w of
           (Inl e, w1) \<Rightarrow> ((Inl e, trace), w1)
         | (Inr replay1, w1) \<Rightarrow>
             (case to_renderPipelines (t_objects trace) of
                None \<Rightarrow> ((Inl TypeError, trace), w1)
              | Some descMap \<Rightarrow>
                  (case recreateRenderPipelines replay1 descMap w1 of
                     ((r, descMap'), w2) \<Rightarrow>
                       (let trace' = trace\<lparr>t_objects :=
                                       (t_objects trace)\<lparr>to_renderPipelines := Some descMap'\<rparr>\<rparr>
                        in case r of
                             Inl e \<Rightarrow> ((Inl e, trace'), w2)
                           | Inr pipelines \<Rightarrow>
                               (case run_phases (phasesAfterPipelines trace)
                                       (replay1\<lparr>renderPipelines := pipelines\<rparr>) w2 of
                                  (r3, w3) \<Rightarrow> ((r3, trace'), w3))))))"



subsection \<open>The replay driver\<close>

text \<open>
  A path is an array of indices; \<^verbatim>\<open>path.shift()\<close> takes its head, or \<^verbatim>\<open>undefined\<close> from
  the empty array. A comparison with \<^verbatim>\<open>undefined\<close> is false, so a loop bounded by a
  missing index does not run. An array read outside the array is \<^verbatim>\<open>undefined\<close>.
\<close>

definition nth_opt :: "'a list \<Rightarrow> int \<Rightarrow> 'a option" where
  "nth_opt xs i = (if 0 \<le> i \<and> i < int (length xs) then Some (xs ! nat i) else None)"

definition array_set :: "'a option list \<Rightarrow> nat \<Rightarrow> 'a \<Rightarrow> 'a option list" where
  "array_set xs i v =
     (if i < length xs then xs[i := Some v]
      else xs @ replicate (i - length xs) None @ [Some v])"

text \<open>The switch in the loop of \<^verbatim>\<open>ReplayRenderPass.encodeUpTo\<close>, on the snapshot, the flag
  \<^verbatim>\<open>renderPassEnded\<close> and the encoder.\<close>

fun encodePassCommand ::
  "EncoderCommand \<Rightarrow> RenderPassState \<times> bool \<times> EncoderCall list \<Rightarrow> World
     \<Rightarrow> (error + RenderPassState \<times> bool \<times> EncoderCall list) \<times> World" where
  "encodePassCommand (Draw a b c d) (st, ended, enc) w =
     (Inr (st, ended, enc @ [EncPass (CallDraw a b c d)]), w)"
| "encodePassCommand (DrawIndexed a b c d e) (st, ended, enc) w =
     (Inr (st, ended, enc @ [EncPass (CallDrawIndexed a b c d e)]), w)"
| "encodePassCommand EndPass (st, ended, enc) w =
     (Inr (st, True, enc @ [EncPass CallEnd]), w)"
| "encodePassCommand PopDebugGroup (st, ended, enc) w =
     (Inr (st, ended, enc @ [EncPass CallPopDebugGroup]), w)"
| "encodePassCommand (PushDebugGroup l) (st, ended, enc) w =
     (Inr (st, ended, enc @ [EncPass (CallPushDebugGroup l)]), w)"
| "encodePassCommand (SetBindGroup a dynamicOffsets) (st, ended, enc) w =
     (case sbg_bindGroup a of
        None \<Rightarrow> (Inl TypeError, w)
      | Some bindGroup \<Rightarrow>
          (Inr (st\<lparr>rs_bindGroups :=
                    array_set (rs_bindGroups st) (sbg_index a) (bindGroup, dynamicOffsets)\<rparr>,
                ended,
                enc @ [EncPass (CallSetBindGroup (sbg_index a) (bg_webgpuObject bindGroup)
                                  dynamicOffsets)]), w))"
| "encodePassCommand (SetIndexBuffer a) (st, ended, enc) w =
     (case sib_buffer a of
        None \<Rightarrow> (Inl TypeError, w)
      | Some buffer \<Rightarrow>
          (Inr (st\<lparr>rs_indexBuffer := (Some buffer, sib_offset a, sib_size a)\<rparr>,
                ended,
                enc @ [EncPass (CallSetIndexBuffer (buf_webgpuObject buffer) (sib_indexFormat a)
                                  (sib_offset a) (sib_size a))]), w))"
| "encodePassCommand (SetPipeline a) (st, ended, enc) w =
     (case sp_pipeline a of
        None \<Rightarrow> (Inl TypeError, w)
      | Some pipeline \<Rightarrow>
          (Inr (st\<lparr>rs_pipeline := Some pipeline\<rparr>,
                ended,
                enc @ [EncPass (CallSetPipeline (rp_webgpuObject pipeline))]), w))"
| "encodePassCommand (SetVertexBuffer a) (st, ended, enc) w =
     (case svb_buffer a of
        None \<Rightarrow> (Inl TypeError, w)
      | Some buffer \<Rightarrow>
          (Inr (st\<lparr>rs_vertexBuffers :=
                    array_set (rs_vertexBuffers st) (svb_slot a)
                      (buffer, svb_offset a, svb_size a)\<rparr>,
                ended,
                enc @ [EncPass (CallSetVertexBuffer (svb_slot a) (buf_webgpuObject buffer)
                                  (svb_offset a) (svb_size a))]), w))"
| "encodePassCommand (SetViewport v) (st, ended, enc) w =
     (Inr (st\<lparr>rs_viewport := v\<rparr>, ended, enc @ [EncPass (CallSetViewport v)]), w)"
| "encodePassCommand c (st, ended, enc) w =
     (Inr (st, ended, enc),
      console_assert False (''Unhandled render pass command type '' @ quoted (name c)) w)"

fun encodePassLoop ::
  "EncoderCommand list \<Rightarrow> int list \<Rightarrow> RenderPassState \<times> bool \<times> EncoderCall list \<Rightarrow> World
     \<Rightarrow> (error + RenderPassState \<times> bool \<times> EncoderCall list) \<times> World" where
  "encodePassLoop cmds [] acc w = (Inr acc, w)"
| "encodePassLoop cmds (i # rest) acc w =
     (case nth_opt cmds i of
        None \<Rightarrow> (Inl TypeError, w)
      | Some c \<Rightarrow>
          (case encodePassCommand c acc w of
             (Inl e, w1) \<Rightarrow> (Inl e, w1)
           | (Inr acc1, w1) \<Rightarrow> encodePassLoop cmds rest acc1 w1))"

text \<open>The warnings about the store operation 'discard'.\<close>

fun warnColorDiscards :: "ColorAttachment list \<Rightarrow> World \<Rightarrow> World" where
  "warnColorDiscards [] w = w"
| "warnColorDiscards (a # as) w =
     warnColorDiscards as
       (if ca_storeOp a = ''discard''
        then console_warn ''Don't know how to turn discard into stores yet'' w else w)"

definition warnDiscards :: "BeginRenderPassArgs \<Rightarrow> World \<Rightarrow> World" where
  "warnDiscards renderPassDesc w =
     (let w1 = warnColorDiscards (colorAttachments renderPassDesc) w
      in case depthStencilAttachment renderPassDesc of
           None \<Rightarrow> w1
         | Some ds \<Rightarrow>
             if ds_stencilStoreOp ds = Some ''discard'' \<or> ds_depthStoreOp ds = Some ''discard''
             then console_warn ''Don't know how to turn discard into stores yet'' w1 else w1)"

definition firstAttachmentRequired :: string where
  "firstAttachmentRequired =
     ''Computing render pass size currently requires the first color attachment to always be set.''"

text \<open>
  \<^verbatim>\<open>ReplayRenderPass.encodeUpTo\<close>, on the command list of the pass. Reading
  \<^verbatim>\<open>this.commands[0].name\<close> of an empty list throws, and so does reading the attachments of
  a first command that is not a begin command, or \<^verbatim>\<open>colorAttachments[0].viewState\<close> when
  there is no first colour attachment.
\<close>

definition ReplayRenderPass_encodeUpTo ::
  "EncoderCommand list \<Rightarrow> int list \<Rightarrow> EncoderCall list \<Rightarrow> World
     \<Rightarrow> (error + EncoderCall list) \<times> World" where
  "ReplayRenderPass_encodeUpTo cmds path encoder w =
     (let commandIndex = (case path of [] \<Rightarrow> None | i # _ \<Rightarrow> Some i);
          w1 = console_assert (0 < length cmds) [] w
      in case cmds of
           [] \<Rightarrow> (Inl TypeError, w1)
         | c0 # _ \<Rightarrow>
             (let w2 = console_assert (name c0 = ''beginRenderPass'') [] w1;
                  w3 = console_assert (name (last cmds) = ''endPass'') [] w2
              in case c0 of
                   BeginRenderPass renderPassDesc \<Rightarrow>
                     (let w4 = (if commandIndex \<noteq> Some (int (length cmds))
                                then warnDiscards renderPassDesc w3 else w3);
                          w5 = console_assert
                                 (case colorAttachments renderPassDesc of
                                    [] \<Rightarrow> False
                                  | a # _ \<Rightarrow> ca_viewState a \<noteq> None)
                                 firstAttachmentRequired w4
                      in case colorAttachments renderPassDesc of
                           [] \<Rightarrow> (Inl TypeError, w5)
                         | a # _ \<Rightarrow>
                             (case ca_viewState a of
                                None \<Rightarrow> (Inl TypeError, w5)
                              | Some firstAttachment \<Rightarrow>
                                  (let w6 = console_assert (tv_baseMipLevel firstAttachment = 0) [] w5
                                   in if commandIndex = Some 0 then
                                        (Inr encoder, w6\<lparr>state := StateBeginArgs renderPassDesc\<rparr>)
                                      else
                                        (let st = \<lparr>rs_viewport =
                                                     \<lparr>vp_x = 0, vp_y = 0,
                                                      vp_width = width (tex_size (tv_texture firstAttachment)),
                                                      vp_height = height (tex_size (tv_texture firstAttachment)),
                                                      vp_minDepth = 0, vp_maxDepth = 1\<rparr>,
                                                   rs_colorAttachments =
                                                     map (\<lambda>a. (ca_viewState a, ca_resolveTargetState a))
                                                       (colorAttachments renderPassDesc),
                                                   rs_depthStencilAttachment =
                                                     (case depthStencilAttachment renderPassDesc of
                                                        None \<Rightarrow> None
                                                      | Some ds \<Rightarrow> ds_viewState ds),
                                                   rs_pipeline = None, rs_bindGroups = [],
                                                   rs_vertexBuffers = [],
                                                   rs_indexBuffer = (None, 0, 0)\<rparr>;
                                             encoder1 = encoder @ [EncBeginRenderPass renderPassDesc]
                                         in case (if ca_resolveTarget a \<noteq> None then
                                                    (case ca_resolveTargetState a of
                                                       None \<Rightarrow> Inl TypeError
                                                     | Some t \<Rightarrow> Inr (tv_texture t))
                                                  else Inr (tv_texture firstAttachment)) of
                                              Inl e \<Rightarrow> (Inl e, w6)
                                            | Inr shown \<Rightarrow>
                                                (case encodePassLoop cmds
                                                        (case commandIndex of
                                                           None \<Rightarrow> [] | Some k \<Rightarrow> [1..k])
                                                        (st, False, encoder1)
                                                        (w6\<lparr>textureStateToShow := Some shown\<rparr>) of
                                                   (Inl e, w7) \<Rightarrow> (Inl e, w7)
                                                 | (Inr (st', renderPassEnded, encoder2), w7) \<Rightarrow>
                                                     if \<not> renderPassEnded then
                                                       (Inr (encoder2 @ [EncPass CallEnd]),
                                                        w7\<lparr>state := StateRenderPass st'\<rparr>)
                                                     else (Inr encoder2, w7))))))
                 | _ \<Rightarrow> (Inl TypeError, w3)))"

definition ReplayRenderPass_encodeIn ::
  "EncoderCommand list \<Rightarrow> EncoderCall list \<Rightarrow> World \<Rightarrow> (error + EncoderCall list) \<times> World" where
  "ReplayRenderPass_encodeIn cmds encoder w =
     ReplayRenderPass_encodeUpTo cmds [int (length cmds) - 1] encoder w"

text \<open>
  The switch in the loop of \<^verbatim>\<open>ReplayCommandBuffer.encodeUpTo\<close>; \<open>partial\<close> is the test
  \<^verbatim>\<open>i === commandIndex && !full\<close>, and \<open>path\<close> is the path after the shift.
\<close>

fun encodeBufferCommand ::
  "EncoderCommand \<Rightarrow> bool \<Rightarrow> int list \<Rightarrow> EncoderCall list \<Rightarrow> World
     \<Rightarrow> (error + EncoderCall list) \<times> World" where
  "encodeBufferCommand (RenderPass renderPass) partial path enc w =
     (if partial then ReplayRenderPass_encodeUpTo renderPass path enc w
      else ReplayRenderPass_encodeIn renderPass enc w)"
| "encodeBufferCommand (CopyBufferToTexture src dst sz) partial path enc w =
     (Inr (enc @ [EncCopyBufferToTexture src dst sz]), w)"
| "encodeBufferCommand (CopyTextureToTexture src dst sz) partial path enc w =
     (Inr (enc @ [EncCopyTextureToTexture src dst sz]), w)"
| "encodeBufferCommand PopDebugGroup partial path enc w = (Inr (enc @ [EncPopDebugGroup]), w)"
| "encodeBufferCommand (PushDebugGroup l) partial path enc w =
     (Inr (enc @ [EncPushDebugGroup l]), w)"
| "encodeBufferCommand c partial path enc w =
     (Inr enc,
      console_assert False (''Unhandled command encoder command type '' @ quoted (name c)) w)"

fun encodeBufferLoop ::
  "EncoderCommand list \<Rightarrow> int \<Rightarrow> bool \<Rightarrow> int list \<Rightarrow> int list \<Rightarrow> EncoderCall list \<Rightarrow> World
     \<Rightarrow> (error + EncoderCall list) \<times> World" where
  "encodeBufferLoop cmds commandIndex full path [] enc w = (Inr enc, w)"
| "encodeBufferLoop cmds commandIndex full path (i # rest) enc w =
     (case nth_opt cmds i of
        None \<Rightarrow> (Inl TypeError, w)
      | Some c \<Rightarrow>
          (case encodeBufferCommand c (i = commandIndex \<and> \<not> full) path enc w of
             (Inl e, w1) \<Rightarrow> (Inl e, w1)
           | (Inr enc1, w1) \<Rightarrow> encodeBufferLoop cmds commandIndex full path rest enc1 w1))"

definition ReplayCommandBuffer_encodeUpTo ::
  "ReplayCommandBuffer \<Rightarrow> int list \<Rightarrow> bool \<Rightarrow> EncoderCall list \<Rightarrow> World
     \<Rightarrow> (error + EncoderCall list) \<times> World" where
  "ReplayCommandBuffer_encodeUpTo this path full encoder w =
     (case path of
        [] \<Rightarrow> (Inr encoder, w)
      | commandIndex # path' \<Rightarrow>
          encodeBufferLoop (cb_commands this) commandIndex full path' [0..commandIndex] encoder w)"

definition ReplayCommandBuffer_encodeIn ::
  "ReplayCommandBuffer \<Rightarrow> EncoderCall list \<Rightarrow> World \<Rightarrow> (error + EncoderCall list) \<times> World" where
  "ReplayCommandBuffer_encodeIn this encoder w =
     ReplayCommandBuffer_encodeUpTo this [int (length (cb_commands this)) - 1] True encoder w"

text \<open>\<^verbatim>\<open>ReplayQueue.executeSubmit\<close>: every command buffer of the array into one encoder.\<close>

fun encodeAll ::
  "ReplayCommandBuffer option list \<Rightarrow> EncoderCall list \<Rightarrow> World
     \<Rightarrow> (error + EncoderCall list) \<times> World" where
  "encodeAll [] enc w = (Inr enc, w)"
| "encodeAll (None # rest) enc w = (Inl TypeError, w)"
| "encodeAll (Some commandBuffer # rest) enc w =
     (case ReplayCommandBuffer_encodeIn commandBuffer enc w of
        (Inl e, w1) \<Rightarrow> (Inl e, w1)
      | (Inr enc1, w1) \<Rightarrow> encodeAll rest enc1 w1)"

definition ReplayQueue_executeSubmit ::
  "ReplayQueue \<Rightarrow> ReplayCommandBuffer option list \<Rightarrow> World \<Rightarrow> (error + unit) \<times> World" where
  "ReplayQueue_executeSubmit this cbs w =
     (case encodeAll cbs []
             (gpu_call (CreateCommandEncoder (dev_webgpuObject (q_device this))) w) of
        (Inl e, w1) \<Rightarrow> (Inl e, w1)
      | (Inr enc, w1) \<Rightarrow> (Inr (), gpu_call (Submit (q_webgpuObject this) enc) w1))"

text \<open>
  \<^verbatim>\<open>ReplayQueue.replaySubmitTo\<close>. The first loop runs while
  \<^verbatim>\<open>i < commandBufferIndex - 1\<close>, that is over the indices 0 to \<open>commandBufferIndex - 2\<close>.
\<close>

fun encodeBuffersAt ::
  "ReplayCommandBuffer option list \<Rightarrow> int list \<Rightarrow> EncoderCall list \<Rightarrow> World
     \<Rightarrow> (error + EncoderCall list) \<times> World" where
  "encodeBuffersAt cbs [] enc w = (Inr enc, w)"
| "encodeBuffersAt cbs (i # rest) enc w =
     (case nth_opt cbs i of
        Some (Some commandBuffer) \<Rightarrow>
          (case ReplayCommandBuffer_encodeIn commandBuffer enc w of
             (Inl e, w1) \<Rightarrow> (Inl e, w1)
           | (Inr enc1, w1) \<Rightarrow> encodeBuffersAt cbs rest enc1 w1)
      | _ \<Rightarrow> (Inl TypeError, w))"

definition ReplayQueue_replaySubmitTo ::
  "ReplayQueue \<Rightarrow> int list \<Rightarrow> ReplayCommandBuffer option list \<Rightarrow> World
     \<Rightarrow> (error + unit) \<times> World" where
  "ReplayQueue_replaySubmitTo this path cbs w =
     (let w1 = gpu_call (CreateCommandEncoder (dev_webgpuObject (q_device this))) w
      in case path of
           [] \<Rightarrow> (Inl TypeError, w1)
         | commandBufferIndex # path' \<Rightarrow>
             (case encodeBuffersAt cbs [0..commandBufferIndex - 2] [] w1 of
                (Inl e, w2) \<Rightarrow> (Inl e, w2)
              | (Inr enc, w2) \<Rightarrow>
                  (case nth_opt cbs commandBufferIndex of
                     Some (Some commandBuffer) \<Rightarrow>
                       (case ReplayCommandBuffer_encodeUpTo commandBuffer path' False enc w2 of
                          (Inl e, w3) \<Rightarrow> (Inl e, w3)
                        | (Inr enc1, w3) \<Rightarrow>
                            (Inr (), gpu_call (Submit (q_webgpuObject this) enc1) w3))
                   | _ \<Rightarrow> (Inl TypeError, w2))))"

text \<open>\<^verbatim>\<open>Replay.execute\<close>.\<close>

fun queueName :: "ReplayQueueCommand \<Rightarrow> string" where
  "queueName (QueueSubmit _ _) = ''queueSubmit''"
| "queueName (QueueWriteBuffer _ _ _ _) = ''queueWriteBuffer''"
| "queueName (QueueWriteTexture _ _ _ _ _) = ''queueWriteTexture''"
| "queueName (Present _ _) = ''present''"
| "queueName (TextureDestroy _) = ''textureDestroy''"
| "queueName (BufferUpdateData _ _) = ''bufferUpdateData''"
| "queueName (BufferUnmap _) = ''bufferUnmap''"
| "queueName BadCommand = ''bad-command''"

fun execute :: "Replay \<Rightarrow> ReplayQueueCommand \<Rightarrow> World \<Rightarrow> (error + unit) \<times> World" where
  "execute replay (QueueSubmit queue cbs) w =
     (case queue of
        None \<Rightarrow> (Inl TypeError, w)
      | Some q \<Rightarrow> ReplayQueue_executeSubmit q cbs w)"
| "execute replay (QueueWriteBuffer queue buffer bufferOffset d) w =
     (case getData replay d w of
        (Inl e, w1) \<Rightarrow> (Inl e, w1)
      | (Inr dataBuf, w1) \<Rightarrow>
          (case queue of
             None \<Rightarrow> (Inl TypeError, w1)
           | Some q \<Rightarrow>
               (case buffer of
                  None \<Rightarrow> (Inl TypeError, w1)
                | Some b \<Rightarrow>
                    (Inr (), gpu_call (WriteBuffer (q_webgpuObject q) (buf_webgpuObject b)
                                         bufferOffset dataBuf) w1))))"
| "execute replay (QueueWriteTexture queue destination d dataLayout sz) w =
     (case getData replay d w of
        (Inl e, w1) \<Rightarrow> (Inl e, w1)
      | (Inr dataBuf, w1) \<Rightarrow>
          (case queue of
             None \<Rightarrow> (Inl TypeError, w1)
           | Some q \<Rightarrow>
               (Inr (), gpu_call (WriteTextureTo (q_webgpuObject q) destination dataBuf
                                    (dataLayout\<lparr>idl_offset := 0\<rparr>) sz) w1)))"
| "execute replay (Present texture canvasContextSerial) w =
     (Inr (), w\<lparr>state := StateCurrentTexture texture\<rparr>)"
| "execute replay (TextureDestroy texture) w = (Inr (), w)"
| "execute replay command w =
     (Inr (), console_assert False (''Unhandled command type '' @ quoted (queueName command)) w)"

text \<open>\<^verbatim>\<open>Replay.replayTo\<close> and \<^verbatim>\<open>Replay.endPath\<close>.\<close>

fun replayLoop ::
  "Replay \<Rightarrow> int \<Rightarrow> int list \<Rightarrow> int list \<Rightarrow> World \<Rightarrow> (error + unit) \<times> World" where
  "replayLoop replay replayLevel path [] w = (Inr (), w)"
| "replayLoop replay replayLevel path (i # rest) w =
     (case nth_opt (commands replay) i of
        None \<Rightarrow> (Inl TypeError, w)
      | Some c \<Rightarrow>
          (case (case c of
                   QueueSubmit queue cbs \<Rightarrow>
                     (case queue of
                        None \<Rightarrow> (Inl TypeError, w)
                      | Some q \<Rightarrow>
                          if i = replayLevel then ReplayQueue_replaySubmitTo q path cbs w
                          else ReplayQueue_executeSubmit q cbs w)
                 | _ \<Rightarrow> execute replay c w) of
             (Inl e, w1) \<Rightarrow> (Inl e, w1)
           | (Inr _, w1) \<Rightarrow> replayLoop replay replayLevel path rest w1))"

definition replayTo :: "Replay \<Rightarrow> int list \<Rightarrow> World \<Rightarrow> (error + ReplayState) \<times> World" where
  "replayTo replay path w =
     (let w0 = w\<lparr>state := StateEmpty\<rparr>
      in case path of
           [] \<Rightarrow> (Inr (state w0), w0)
         | replayLevel # path' \<Rightarrow>
             (case replayLoop replay replayLevel path' [0..replayLevel] w0 of
                (Inl e, w1) \<Rightarrow> (Inl e, w1)
              | (Inr _, w1) \<Rightarrow> (Inr (state w1), w1)))"

definition endPath :: "Replay \<Rightarrow> int list" where
  "endPath replay = [int (length (commands replay))]"

text \<open>
  Full execution, in the words of the specification: \<^verbatim>\<open>execute\<close> on every top-level
  command in order, stopping at the first that throws.
\<close>

fun executeAll :: "Replay \<Rightarrow> ReplayQueueCommand list \<Rightarrow> World \<Rightarrow> (error + unit) \<times> World" where
  "executeAll replay [] w = (Inr (), w)"
| "executeAll replay (c # rest) w =
     (case execute replay c w of
        (Inl e, w1) \<Rightarrow> (Inl e, w1)
      | (Inr _, w1) \<Rightarrow> executeAll replay rest w1)"

subsection \<open>The command enumerator\<close>

text \<open>
  The three generators. A generator is observed through what it does in order: it yields a
  path with a command, it writes an assertion message (the default case of a switch, which
  yields nothing), or it throws, which ends the whole iteration. The functions return that
  list of events; it is a function of the resolved tree alone, so every call starts again
  from the first command.
\<close>

datatype Leaf = QueueLeaf ReplayQueueCommand | EncoderLeaf EncoderCommand

datatype IterEvent = Yield "int list" Leaf | IterAssert string | IterThrow error

text \<open>The cases of the switch of \<^verbatim>\<open>ReplayRenderPass.iterateCommands\<close> that yield.\<close>

fun passEnumerated :: "EncoderCommand \<Rightarrow> bool" where
  "passEnumerated (BeginRenderPass _) = True"
| "passEnumerated (CopyBufferToTexture _ _ _) = True"
| "passEnumerated (CopyTextureToTexture _ _ _) = True"
| "passEnumerated (Draw _ _ _ _) = True"
| "passEnumerated (DrawIndexed _ _ _ _ _) = True"
| "passEnumerated EndPass = True"
| "passEnumerated PopDebugGroup = True"
| "passEnumerated (PushDebugGroup _) = True"
| "passEnumerated (SetBindGroup _ _) = True"
| "passEnumerated (SetIndexBuffer _) = True"
| "passEnumerated (SetPipeline _) = True"
| "passEnumerated (SetVertexBuffer _) = True"
| "passEnumerated (SetViewport _) = True"
| "passEnumerated _ = False"

fun passIterateFrom :: "int list \<Rightarrow> nat \<Rightarrow> EncoderCommand list \<Rightarrow> IterEvent list" where
  "passIterateFrom ijk l [] = []"
| "passIterateFrom ijk l (c # rest) =
     (if passEnumerated c then [Yield (ijk @ [int l]) (EncoderLeaf c)]
      else [IterAssert (''Unhandled render pass command type '' @ quoted (name c))])
     @ passIterateFrom ijk (Suc l) rest"

definition ReplayRenderPass_iterateCommands :: "EncoderCommand list \<Rightarrow> int list \<Rightarrow> IterEvent list" where
  "ReplayRenderPass_iterateCommands cmds ijk = passIterateFrom ijk 0 cmds"

text \<open>The cases of the switch of \<^verbatim>\<open>ReplayCommandBuffer.iterateCommands\<close> that yield.\<close>

fun bufferEnumerated :: "EncoderCommand \<Rightarrow> bool" where
  "bufferEnumerated (CopyBufferToTexture _ _ _) = True"
| "bufferEnumerated (CopyTextureToTexture _ _ _) = True"
| "bufferEnumerated PopDebugGroup = True"
| "bufferEnumerated (PushDebugGroup _) = True"
| "bufferEnumerated _ = False"

fun bufferIterateFrom :: "int list \<Rightarrow> nat \<Rightarrow> EncoderCommand list \<Rightarrow> IterEvent list" where
  "bufferIterateFrom ij k [] = []"
| "bufferIterateFrom ij k (c # rest) =
     (case c of
        RenderPass renderPass \<Rightarrow> ReplayRenderPass_iterateCommands renderPass (ij @ [int k])
      | _ \<Rightarrow>
          if bufferEnumerated c then [Yield (ij @ [int k]) (EncoderLeaf c)]
          else [IterAssert (''Unhandled command encoder command type '' @ quoted (name c))])
     @ bufferIterateFrom ij (Suc k) rest"

definition ReplayCommandBuffer_iterateCommands :: "ReplayCommandBuffer \<Rightarrow> int list \<Rightarrow> IterEvent list" where
  "ReplayCommandBuffer_iterateCommands this ij = bufferIterateFrom ij 0 (cb_commands this)"

text \<open>
  \<^verbatim>\<open>Replay.iterateCommands\<close>. A command buffer that is \<^verbatim>\<open>undefined\<close> in the array of a
  submit throws on \<^verbatim>\<open>iterateCommands\<close>.
\<close>

fun submitIterateFrom :: "nat \<Rightarrow> nat \<Rightarrow> ReplayCommandBuffer option list \<Rightarrow> IterEvent list" where
  "submitIterateFrom i j [] = []"
| "submitIterateFrom i j (None # rest) = [IterThrow TypeError]"
| "submitIterateFrom i j (Some commandBuffer # rest) =
     ReplayCommandBuffer_iterateCommands commandBuffer [int i, int j] @ submitIterateFrom i (Suc j) rest"

fun queueEnumerated :: "ReplayQueueCommand \<Rightarrow> bool" where
  "queueEnumerated (QueueSubmit _ _) = False"
| "queueEnumerated BadCommand = False"
| "queueEnumerated _ = True"

fun is_throw :: "IterEvent \<Rightarrow> bool" where
  "is_throw (IterThrow _) = True"
| "is_throw _ = False"

fun queueIterateFrom :: "nat \<Rightarrow> ReplayQueueCommand list \<Rightarrow> IterEvent list" where
  "queueIterateFrom i [] = []"
| "queueIterateFrom i (c # rest) =
     (let es = (case c of
                  QueueSubmit queue cbs \<Rightarrow> submitIterateFrom i 0 cbs
                | _ \<Rightarrow>
                    if queueEnumerated c then [Yield [int i] (QueueLeaf c)]
                    else [IterAssert (''Unhandled command type '' @ quoted (queueName c))])
      in if list_ex is_throw es then es else es @ queueIterateFrom (Suc i) rest)"

definition iterateCommands :: "Replay \<Rightarrow> IterEvent list" where
  "iterateCommands replay = queueIterateFrom 0 (commands replay)"

fun yields :: "IterEvent list \<Rightarrow> (int list \<times> Leaf) list" where
  "yields [] = []"
| "yields (Yield p c # es) = (p, c) # yields es"
| "yields (_ # es) = yields es"

text \<open>
  The enumeration in the words of the specification: one pair per leaf command, in document
  order, a top-level command other than a submit at \<open>[i]\<close>, a command of command buffer
  \<open>j\<close> of submit \<open>i\<close> at \<open>[i, j, k]\<close>, a child of the render pass at encoder index
  \<open>k\<close> at \<open>[i, j, k, l]\<close>.
\<close>

definition spec_pass_leaves :: "int list \<Rightarrow> EncoderCommand list \<Rightarrow> (int list \<times> Leaf) list" where
  "spec_pass_leaves ijk p = map (\<lambda>l. (ijk @ [int l], EncoderLeaf (p ! l))) [0..<length p]"

definition spec_buffer_item :: "int list \<Rightarrow> nat \<Rightarrow> EncoderCommand \<Rightarrow> (int list \<times> Leaf) list" where
  "spec_buffer_item ij k c =
     (case c of
        RenderPass p \<Rightarrow> spec_pass_leaves (ij @ [int k]) p
      | _ \<Rightarrow> [(ij @ [int k], EncoderLeaf c)])"

definition spec_buffer_leaves :: "int list \<Rightarrow> EncoderCommand list \<Rightarrow> (int list \<times> Leaf) list" where
  "spec_buffer_leaves ij cmds =
     concat (map (\<lambda>k. spec_buffer_item ij k (cmds ! k)) [0..<length cmds])"

definition spec_submit_item ::
  "nat \<Rightarrow> nat \<Rightarrow> ReplayCommandBuffer option \<Rightarrow> (int list \<times> Leaf) list" where
  "spec_submit_item i j cb =
     (case cb of
        None \<Rightarrow> []
      | Some b \<Rightarrow> spec_buffer_leaves [int i, int j] (cb_commands b))"

definition spec_queue_item :: "nat \<Rightarrow> ReplayQueueCommand \<Rightarrow> (int list \<times> Leaf) list" where
  "spec_queue_item i c =
     (case c of
        QueueSubmit q cbs \<Rightarrow> concat (map (\<lambda>j. spec_submit_item i j (cbs ! j)) [0..<length cbs])
      | _ \<Rightarrow> [([int i], QueueLeaf c)])"

definition spec_leaves :: "ReplayQueueCommand list \<Rightarrow> (int list \<times> Leaf) list" where
  "spec_leaves cmds = concat (map (\<lambda>i. spec_queue_item i (cmds ! i)) [0..<length cmds])"

text \<open>
  Whether the enumerator has a yielding case for a leaf: by the level of the leaf, which
  is the length of its path.
\<close>

fun enumerated :: "int list \<times> Leaf \<Rightarrow> bool" where
  "enumerated (p, QueueLeaf c) = queueEnumerated c"
| "enumerated (p, EncoderLeaf c) = (if length p = 3 then bufferEnumerated c else passEnumerated c)"

text \<open>No command buffer of a submit is \<^verbatim>\<open>undefined\<close>.\<close>

definition submits_defined :: "ReplayQueueCommand list \<Rightarrow> bool" where
  "submits_defined cmds = (\<forall>c \<in> set cmds. case c of QueueSubmit q cbs \<Rightarrow> None \<notin> set cbs | _ \<Rightarrow> True)"

subsection \<open>Example values\<close>

definition example_device :: ReplayDevice where
  "example_device = \<lparr>dev_webgpuObject = 100\<rparr>"

definition example_world :: World where
  "example_world =
     \<lparr>nextHandle = 0, calls = [], console = [], state = StateEmpty, textureStateToShow = None\<rparr>"

definition example_replay :: Replay where
  "example_replay =
     \<lparr>data = [(1, [0, 0, 0, 0])], adapters = [], devices = [(1, example_device)], queues = [],
      bindGroupLayouts = [], pipelineLayouts = [], shaderModules = [], renderPipelines = [],
      buffers = [], samplers = [], textures = [], textureViews = [], querySets = [],
      bindGroups = [], commandBuffers = [], commands = []\<rparr>"

definition example_buffer_desc :: TraceBuffer where
  "example_buffer_desc =
     \<lparr>tb_deviceSerial = 1, tb_usage = 12, tb_size = 4, tb_state = ''unmapped'',
      tb_initialData = None\<rparr>"

definition example_texture_desc :: TraceTexture where
  "example_texture_desc =
     \<lparr>tt_deviceSerial = 1, tt_size = \<lparr>width = 1, height = 1, depthOrArrayLayers = 1\<rparr>,
      tt_format = ''rgba8unorm'', tt_sampleCount = 1, tt_mipLevelCount = 1,
      tt_dimension = None, tt_swapChainId = None, tt_usage = 16, tt_viewFormats = [],
      tt_state = ''destroyed'', tt_initialData = None\<rparr>"

definition example_texture_with_data :: TraceTexture where
  "example_texture_with_data =
     example_texture_desc\<lparr>tt_initialData :=
       Some [\<lparr>tid_data = \<lparr>td_serial = 1, td_size = 4\<rparr>, tid_mipLevel = 0, tid_bytesPerRow = 4\<rparr>]\<rparr>"

definition example_texture :: ReplayTexture where
  "example_texture =
     \<lparr>tex_device = example_device, tex_size = \<lparr>width = 4, height = 4, depthOrArrayLayers = 1\<rparr>,
      tex_format = ''rgba8unorm'', tex_sampleCount = 1, tex_mipLevelCount = 1,
      tex_dimension = ''2d'', tex_swapChainId = None, tex_webgpuObject = 7\<rparr>"

definition example_view :: ReplayTextureView where
  "example_view = \<lparr>tv_texture = example_texture, tv_baseMipLevel = 0, tv_webgpuObject = 8\<rparr>"

definition example_session :: Replay where
  "example_session = example_replay\<lparr>textures := [(1, example_texture)], textureViews := [(1, example_view)]\<rparr>"

definition example_begin :: BeginRenderPassArgs where
  "example_begin =
     \<lparr>colorAttachments =
        [\<lparr>ca_viewSerial = Some 1, ca_view = None, ca_viewState = None,
          ca_resolveTargetSerial = None, ca_resolveTarget = None, ca_resolveTargetState = None,
          ca_loadOp = ''clear'', ca_storeOp = ''store''\<rparr>],
      timestampWrites = [], occlusionQuerySetSerial = None, occlusionQuerySetState = None,
      occlusionQuerySet = None, maxDrawCount = 0, depthStencilAttachment = None\<rparr>"

definition example_begin_resolved :: BeginRenderPassArgs where
  "example_begin_resolved =
     \<lparr>colorAttachments =
        [\<lparr>ca_viewSerial = None, ca_view = Some 8, ca_viewState = Some example_view,
          ca_resolveTargetSerial = None, ca_resolveTarget = None, ca_resolveTargetState = None,
          ca_loadOp = ''clear'', ca_storeOp = ''store''\<rparr>],
      timestampWrites = [], occlusionQuerySetSerial = None, occlusionQuerySetState = None,
      occlusionQuerySet = None, maxDrawCount = 0, depthStencilAttachment = None\<rparr>"

definition example_queue :: ReplayQueue where
  "example_queue = \<lparr>q_device = example_device, q_webgpuObject = QueueOf 100\<rparr>"

definition example_buffer_a :: ReplayCommandBuffer where
  "example_buffer_a = \<lparr>cb_commands = [PushDebugGroup ''a'']\<rparr>"

definition example_buffer_b :: ReplayCommandBuffer where
  "example_buffer_b = \<lparr>cb_commands = [PushDebugGroup ''b'']\<rparr>"

definition example_submit :: Replay where
  "example_submit =
     example_session\<lparr>commands :=
       [QueueSubmit (Some example_queue) [Some example_buffer_a, Some example_buffer_b]]\<rparr>"

definition example_pass :: "EncoderCommand list" where
  "example_pass = [BeginRenderPass example_begin_resolved, Draw 3 1 0 0, EndPass]"

definition example_depth_only :: BeginRenderPassArgs where
  "example_depth_only =
     \<lparr>colorAttachments = [], timestampWrites = [], occlusionQuerySetSerial = None,
      occlusionQuerySetState = None, occlusionQuerySet = None, maxDrawCount = 0,
      depthStencilAttachment =
        Some \<lparr>ds_viewSerial = Some 1, ds_view = None, ds_viewState = None,
              ds_depthStoreOp = Some ''store'', ds_stencilStoreOp = None\<rparr>\<rparr>"

definition example_depth_only_resolved :: BeginRenderPassArgs where
  "example_depth_only_resolved =
     \<lparr>colorAttachments = [], timestampWrites = [], occlusionQuerySetSerial = None,
      occlusionQuerySetState = None, occlusionQuerySet = None, maxDrawCount = 0,
      depthStencilAttachment =
        Some \<lparr>ds_viewSerial = None, ds_view = Some 8, ds_viewState = Some example_view,
              ds_depthStoreOp = Some ''store'', ds_stencilStoreOp = None\<rparr>\<rparr>"

definition example_scissor_pass :: "EncoderCommand list" where
  "example_scissor_pass =
     [BeginRenderPass example_begin_resolved, SetScissorRect 0 0 1 1, Draw 3 1 0 0, EndPass]"

definition example_tree :: Replay where
  "example_tree = example_session\<lparr>commands :=
     [Present (Some example_texture) 0,
      QueueSubmit (Some example_queue) [Some example_buffer_a, Some \<lparr>cb_commands = [RenderPass example_scissor_pass, PopDebugGroup]\<rparr>],
      BadCommand]\<rparr>"

definition example_registry :: Replay where
  "example_registry =
     example_session\<lparr>queues := [(1, example_queue)],
       commandBuffers := [(1, example_buffer_a),
                          (2, \<lparr>cb_commands = [RenderPass example_scissor_pass, PopDebugGroup]\<rparr>)]\<rparr>"

definition example_pipeline_desc :: TraceRenderPipeline where
  "example_pipeline_desc =
     \<lparr>trp_deviceSerial = 1,
      trp_vertex = \<lparr>ps_moduleSerial = 1, ps_module = None, ps_entryPoint = ''main''\<rparr>,
      trp_fragment = None, trp_layout = LayoutAuto, trp_layoutSerial = None\<rparr>"

definition example_trace :: Trace where
  "example_trace =
     \<lparr>t_data = [(1, [0, 0, 0, 256])],
      t_objects =
        \<lparr>to_adapters = Some [(1, \<lparr>ta_powerPreference = None\<rparr>)],
         to_devices = Some [(1, \<lparr>tdv_adapterSerial = 1\<rparr>)],
         to_queues = Some [(1, \<lparr>tq_deviceSerial = 1\<rparr>)],
         to_bindGroupLayouts =
           Some [(1, TraceExplicitBindGroupLayout 1 [0]), (2, TraceImplicitBindGroupLayout 1 1 1)],
         to_pipelineLayouts = Some [],
         to_shaderModules = Some [(1, \<lparr>tsm_deviceSerial = 1, tsm_code = ''code''\<rparr>)],
         to_renderPipelines = Some [(1, example_pipeline_desc)],
         to_buffers = Some [], to_samplers = Some [], to_textures = Some [],
         to_textureViews = Some [], to_querySets = Some [], to_bindGroups = Some [],
         to_commandBuffers = Some []\<rparr>,
      t_commands = []\<rparr>"

definition example_pipeline_desc_after :: TraceRenderPipeline where
  "example_pipeline_desc_after =
     example_pipeline_desc\<lparr>trp_vertex :=
       \<lparr>ps_moduleSerial = 1, ps_module = Some \<lparr>sm_webgpuObject = 3\<rparr>, ps_entryPoint = ''main''\<rparr>\<rparr>"

definition example_implicit_layout :: ReplayBindGroupLayout where
  "example_implicit_layout =
     \<lparr>bgl_device = Some \<lparr>dev_webgpuObject = 1\<rparr>, bgl_desc = TraceImplicitBindGroupLayout 1 1 1,
      bgl_implicit = True, bgl_webgpuObject = Some 5\<rparr>"

definition example_loaded :: Replay where
  "example_loaded =
     \<lparr>data = [(1, [0, 0, 0, 0])], adapters = [(1, \<lparr>ad_webgpuObject = 0\<rparr>)],
      devices = [(1, \<lparr>dev_webgpuObject = 1\<rparr>)],
      queues = [(1, \<lparr>q_device = \<lparr>dev_webgpuObject = 1\<rparr>, q_webgpuObject = QueueOf 1\<rparr>)],
      bindGroupLayouts =
        [(1, \<lparr>bgl_device = Some \<lparr>dev_webgpuObject = 1\<rparr>,
               bgl_desc = TraceExplicitBindGroupLayout 1 [0],
               bgl_implicit = False, bgl_webgpuObject = Some 2\<rparr>),
         (2, example_implicit_layout)],
      pipelineLayouts = [], shaderModules = [(1, \<lparr>sm_webgpuObject = 3\<rparr>)],
      renderPipelines =
        [(1, \<lparr>rp_device = Some \<lparr>dev_webgpuObject = 1\<rparr>, rp_desc = example_pipeline_desc_after,
               rp_webgpuObject = Some 4\<rparr>)],
      buffers = [], samplers = [], textures = [], textureViews = [], querySets = [],
      bindGroups = [], commandBuffers = [], commands = []\<rparr>"

definition example_world_loaded :: World where
  "example_world_loaded =
     \<lparr>nextHandle = 6,
      calls = [RequestAdapter \<lparr>ta_powerPreference = None\<rparr> 0, RequestDevice 0 1,
               CreateBindGroupLayout 1 (TraceExplicitBindGroupLayout 1 [0]) 2,
               CreateShaderModule 1 ''code'' 3,
               CreateRenderPipelineAsync 1
                 \<lparr>rpd_vertexModule = 3, rpd_fragmentModule = None, rpd_layout = None\<rparr> 4,
               GetBindGroupLayout 4 1 5],
      console = [], state = StateEmpty, textureStateToShow = None\<rparr>"

definition example_trace_after :: Trace where
  "example_trace_after =
     example_trace\<lparr>t_objects :=
       (t_objects example_trace)\<lparr>to_renderPipelines := Some [(1, example_pipeline_desc_after)]\<rparr>\<rparr>"

subsection \<open>What resolution does with a command it has no case for\<close>

lemma consumePass_acc:
  "consumePass r (pre @ cmds) s w = map_prod (map_prod ((@) pre) id) id (consumePass r cmds s w)"
  by (induction r cmds s w arbitrary: pre rule: consumePass.induct) simp_all


lemma consumePass_from_empty:
  "consumePass r acc s w = map_prod (map_prod ((@) acc) id) id (consumePass r [] s w)"
  using consumePass_acc [of r acc "[]" s w] by simp















lemma example_begin_resolves:
  "resolveBeginRenderPass example_session example_begin = Inr example_begin_resolved"
  by (simp add: resolveBeginRenderPass_def resolveColorAttachment_def resolveDepthStencil_def
      lookup_def example_session_def example_begin_def example_begin_resolved_def example_view_def)





subsection \<open>The shape of a render pass\<close>






subsection \<open>Replay of a submit up to a command buffer\<close>

lemma upto_0_0: "[0..0] = [0]"
  by (simp add: upto.simps)

text \<open>
  C1: the code at a failing input. The session has one submit with the command buffers a and
  b; the path [0, 1, 0] addresses the first command of b. The claim requires a, whose index is
  below 1, to be encoded in full; the loop of \<^verbatim>\<open>replaySubmitTo\<close> stops at
  \<open>commandBufferIndex - 2\<close>, so only the command of b is submitted. Executing the same
  submit in full encodes both.
\<close>

theorem replaySubmitTo_skips_buffer:
  "replayTo example_submit [0, 1, 0] example_world
     = (Inr StateEmpty,
        example_world\<lparr>calls := [CreateCommandEncoder 100,
                                 Submit (QueueOf 100) [EncPushDebugGroup ''b'']]\<rparr>) \<and>
   execute example_submit (commands example_submit ! 0) example_world
     = (Inr (),
        example_world\<lparr>calls := [CreateCommandEncoder 100,
                                 Submit (QueueOf 100)
                                   [EncPushDebugGroup ''a'', EncPushDebugGroup ''b'']]\<rparr>)"
  by (simp add: replayTo_def example_submit_def example_world_def upto_0_0 nth_opt_def
      ReplayQueue_replaySubmitTo_def ReplayQueue_executeSubmit_def gpu_call_def example_queue_def
      example_device_def ReplayCommandBuffer_encodeUpTo_def ReplayCommandBuffer_encodeIn_def
      example_buffer_a_def example_buffer_b_def)

subsection \<open>Replay to the end path\<close>

lemma error_is_TypeError: "(e :: error) = TypeError"
  by (cases e) simp

lemma replayLoop_append:
  "replayLoop r lvl path (xs @ ys) w =
     (case replayLoop r lvl path xs w of
        (Inl e, w1) \<Rightarrow> (Inl e, w1)
      | (Inr _, w1) \<Rightarrow> replayLoop r lvl path ys w1)"
  by (induction xs arbitrary: w) (auto split: option.splits prod.splits sum.splits)

lemma replayLoop_executeAll:
  assumes "\<forall>i \<in> set is. i \<noteq> lvl \<and> 0 \<le> i \<and> i < int (length (commands r))"
  shows "replayLoop r lvl path is w = executeAll r (map (\<lambda>i. commands r ! nat i) is) w"
  using assms
proof (induction "is" arbitrary: w)
  case Nil
  then show ?case by simp
next
  case (Cons i rest)
  then have i: "i \<noteq> lvl" "0 \<le> i" "i < int (length (commands r))" by simp_all
  have step: "(case commands r ! nat i of
                 QueueSubmit queue cbs \<Rightarrow>
                   (case queue of
                      None \<Rightarrow> (Inl TypeError, w)
                    | Some q \<Rightarrow>
                        if i = lvl then ReplayQueue_replaySubmitTo q path cbs w
                        else ReplayQueue_executeSubmit q cbs w)
               | _ \<Rightarrow> execute r (commands r ! nat i) w) = execute r (commands r ! nat i) w"
    using i(1) by (cases "commands r ! nat i") (simp_all split: option.splits)
  have "replayLoop r lvl path (i # rest) w =
          (case execute r (commands r ! nat i) w of
             (Inl e, w1) \<Rightarrow> (Inl e, w1)
           | (Inr _, w1) \<Rightarrow> replayLoop r lvl path rest w1)"
    using i(2,3) step by (simp add: nth_opt_def)
  then show ?case using Cons by (auto split: prod.splits sum.splits)
qed

lemma map_nth_upto: "map (\<lambda>i. xs ! nat i) [0..int (length xs) - 1] = xs"
proof (induction xs rule: rev_induct)
  case Nil
  then show ?case by simp
next
  case (snoc x xs)
  have "[0..int (length (xs @ [x])) - 1] = [0..int (length xs) - 1] @ [int (length xs)]"
    using upto_rec2 [of 0 "int (length xs)"] by simp
  moreover have "map (\<lambda>i. (xs @ [x]) ! nat i) [0..int (length xs) - 1]
                   = map (\<lambda>i. xs ! nat i) [0..int (length xs) - 1]"
    by (rule map_cong) (auto simp: nth_append)
  ultimately show ?case using snoc by simp
qed

text \<open>
  C2: the code on the end path, for every session. \<^verbatim>\<open>replayTo\<close> makes the same changes as
  full execution (\<open>executeAll\<close> on the command list, from the world with \<^verbatim>\<open>state\<close> reset),
  and then reads \<^verbatim>\<open>this.commands[this.commands.length].name\<close>: it always throws, where
  the claim says it completes without error.
\<close>

theorem replayTo_endPath_throws:
  "replayTo replay (endPath replay) w =
     (Inl TypeError, snd (executeAll replay (commands replay) (w\<lparr>state := StateEmpty\<rparr>)))"
proof -
  let ?n = "int (length (commands replay))"
  let ?w0 = "w\<lparr>state := StateEmpty\<rparr>"
  have split: "[0..?n] = [0..?n - 1] @ [?n]"
    using upto_rec2 [of 0 ?n] by simp
  have pre: "replayLoop replay ?n [] [0..?n - 1] ?w0 = executeAll replay (commands replay) ?w0"
    using replayLoop_executeAll [of "[0..?n - 1]" ?n replay "[]" ?w0]
      map_nth_upto [of "commands replay"]
    by simp
  have last: "\<And>w1. replayLoop replay ?n [] [?n] w1 = (Inl TypeError, w1)"
    by (simp add: nth_opt_def)
  obtain x w1 where ex: "executeAll replay (commands replay) ?w0 = (x, w1)"
    by (cases "executeAll replay (commands replay) ?w0")
  have "replayLoop replay ?n [] [0..?n] ?w0 = (Inl TypeError, w1)"
    using split pre last ex error_is_TypeError
    by (cases x) (simp_all add: replayLoop_append)
  then show ?thesis using ex by (simp add: replayTo_def endPath_def)
qed

subsection \<open>Replay to the begin marker of a render pass\<close>

lemma example_depth_only_resolves:
  "resolveBeginRenderPass example_session example_depth_only = Inr example_depth_only_resolved"
  by (simp add: resolveBeginRenderPass_def resolveDepthStencil_def
      lookup_def example_session_def example_depth_only_def example_depth_only_resolved_def example_view_def)

text \<open>
  C5, as the claim states it, fails: a pass with no colour attachment resolves, and replay
  to its begin marker throws on \<^verbatim>\<open>colorAttachments[0].viewState\<close> before the state is set.
\<close>

theorem begin_marker_without_color_counterexample:
  "fst (consumeBuffer example_session [] [BeginRenderPass example_depth_only, EndPass] example_world)
     = Inr [RenderPass [BeginRenderPass example_depth_only_resolved, EndPass]] \<and>
   fst (ReplayRenderPass_encodeUpTo [BeginRenderPass example_depth_only_resolved, EndPass] [0] []
          example_world) = Inl TypeError \<and>
   state (snd (ReplayRenderPass_encodeUpTo [BeginRenderPass example_depth_only_resolved, EndPass] [0] []
                 example_world)) = StateEmpty"
  by (simp add: example_depth_only_resolves ReplayRenderPass_consumeCommands_def
      ReplayRenderPass_encodeUpTo_def example_depth_only_resolved_def console_assert_def
      warnDiscards_def console_warn_def example_world_def)

lemma resolveColorAttachment_viewState:
  "resolveColorAttachment r a = Inr a' \<Longrightarrow> ca_viewState a' \<noteq> None"
  by (auto simp: resolveColorAttachment_def Let_def split: option.splits if_splits)

lemma resolveColorAttachments_viewState:
  "resolveColorAttachments r as = Inr as' \<Longrightarrow> \<forall>a' \<in> set as'. ca_viewState a' \<noteq> None"
proof (induction as arbitrary: as')
  case Nil
  then show ?case by simp
next
  case (Cons a as)
  then show ?case
    by (auto split: sum.splits dest: resolveColorAttachment_viewState)
qed

lemma resolveBeginRenderPass_viewState:
  assumes "resolveBeginRenderPass r a = Inr a'"
  shows "\<forall>c \<in> set (colorAttachments a'). ca_viewState c \<noteq> None"
  using assms resolveColorAttachments_viewState [of r "colorAttachments a"]
  by (auto simp: resolveBeginRenderPass_def Let_def split: sum.splits if_splits option.splits)

lemma console_assert_fields:
  "state (console_assert b m w) = state w" "calls (console_assert b m w) = calls w"
  "textureStateToShow (console_assert b m w) = textureStateToShow w"
  by (simp_all add: console_assert_def)

lemma warnColorDiscards_fields:
  "state (warnColorDiscards as w) = state w \<and> calls (warnColorDiscards as w) = calls w
   \<and> textureStateToShow (warnColorDiscards as w) = textureStateToShow w"
  by (induction as arbitrary: w) (simp_all add: console_warn_def)

lemma warnDiscards_fields:
  "state (warnDiscards d w) = state w" "calls (warnDiscards d w) = calls w"
  "textureStateToShow (warnDiscards d w) = textureStateToShow w"
  using warnColorDiscards_fields [of "colorAttachments d" w]
  by (simp_all add: warnDiscards_def Let_def console_warn_def split: option.splits)

lemma encodeUpTo_begin_marker:
  assumes "colorAttachments args = a # as" and "ca_viewState a = Some v"
  shows "fst (ReplayRenderPass_encodeUpTo (BeginRenderPass args # rest) (0 # path) encoder w) = Inr encoder"
    and "state (snd (ReplayRenderPass_encodeUpTo (BeginRenderPass args # rest) (0 # path) encoder w))
           = StateBeginArgs args"
    and "calls (snd (ReplayRenderPass_encodeUpTo (BeginRenderPass args # rest) (0 # path) encoder w))
           = calls w"
    and "textureStateToShow (snd (ReplayRenderPass_encodeUpTo (BeginRenderPass args # rest) (0 # path) encoder w))
           = textureStateToShow w"
  using assms
  by (simp_all add: ReplayRenderPass_encodeUpTo_def Let_def console_assert_fields warnDiscards_fields)

text \<open>
  C5, amended: for every render pass that resolution produces and that has a first colour
  attachment, replay to the begin marker (index 0 inside the pass) returns the encoder as it
  was given, makes no call on the live context, and sets the state of the session to the
  resolved begin arguments of the pass.
\<close>

theorem begin_marker_replay:
  assumes "resolveBeginRenderPass replay traceArgs = Inr args"
      and "colorAttachments args \<noteq> []"
      and "ReplayRenderPass_consumeCommands replay (BeginRenderPass args) stream w0 = ((pass, rest), w1)"
  shows "fst (ReplayRenderPass_encodeUpTo pass [0] encoder w) = Inr encoder \<and>
         calls (snd (ReplayRenderPass_encodeUpTo pass [0] encoder w)) = calls w \<and>
         state (snd (ReplayRenderPass_encodeUpTo pass [0] encoder w)) = StateBeginArgs args"
proof -
  obtain a as where a: "colorAttachments args = a # as"
    using assms(2) by (cases "colorAttachments args") auto
  then obtain v where v: "ca_viewState a = Some v"
    using resolveBeginRenderPass_viewState [OF assms(1)] by auto
  obtain p0 where p: "pass = BeginRenderPass args # p0"
    using assms(3) consumePass_from_empty [of replay "[BeginRenderPass args]" stream w0]
    by (cases "consumePass replay [] stream w0") (auto simp: ReplayRenderPass_consumeCommands_def)
  show ?thesis
    using encodeUpTo_begin_marker [OF a v, of p0 "[]" encoder w] p by simp
qed


theorem begin_marker_replay_witness:
  "resolveBeginRenderPass example_session example_begin = Inr example_begin_resolved \<and>
   colorAttachments example_begin_resolved \<noteq> [] \<and>
   ReplayRenderPass_consumeCommands example_session (BeginRenderPass example_begin_resolved)
       [Draw 3 1 0 0, EndPass] example_world = ((example_pass, []), example_world) \<and>
   fst (ReplayRenderPass_encodeUpTo example_pass [0] [] example_world) = Inr [] \<and>
   calls (snd (ReplayRenderPass_encodeUpTo example_pass [0] [] example_world)) = calls example_world \<and>
   state (snd (ReplayRenderPass_encodeUpTo example_pass [0] [] example_world))
     = StateBeginArgs example_begin_resolved"
proof -
  have c: "colorAttachments example_begin_resolved \<noteq> []"
    by (simp add: example_begin_resolved_def)
  have p: "ReplayRenderPass_consumeCommands example_session (BeginRenderPass example_begin_resolved)
       [Draw 3 1 0 0, EndPass] example_world = ((example_pass, []), example_world)"
    by (simp add: ReplayRenderPass_consumeCommands_def example_pass_def)
  show ?thesis
    using example_begin_resolves c p
      begin_marker_replay [OF example_begin_resolves c p, of "[]" example_world]
    by blast
qed

subsection \<open>The enumerator against the addressing scheme\<close>

lemma yields_append: "yields (xs @ ys) = yields xs @ yields ys"
  by (induction xs rule: yields.induct) simp_all

lemma nth_map_enumerate:
  "map (\<lambda>n. g n (xs ! n)) [0..<length xs] = map (\<lambda>(n, x). g n x) (enumerate 0 xs)"
proof (rule nth_equalityI)
  show "length (map (\<lambda>n. g n (xs ! n)) [0..<length xs])
          = length (map (\<lambda>(n, x). g n x) (enumerate 0 xs))"
    by simp
next
  fix i
  assume "i < length (map (\<lambda>n. g n (xs ! n)) [0..<length xs])"
  then show "map (\<lambda>n. g n (xs ! n)) [0..<length xs] ! i
               = map (\<lambda>(n, x). g n x) (enumerate 0 xs) ! i"
    by (simp add: nth_enumerate_eq)
qed

lemma passIterateFrom_yields:
  "yields (passIterateFrom ijk l cs) =
     filter (\<lambda>(p, leaf). case leaf of EncoderLeaf c \<Rightarrow> passEnumerated c | _ \<Rightarrow> False)
       (map (\<lambda>(n, c). (ijk @ [int n], EncoderLeaf c)) (enumerate l cs))"
  by (induction cs arbitrary: l) (simp_all add: yields_append)


lemma spec_pass_leaves_enumerate:
  "spec_pass_leaves ijk p = map (\<lambda>(n, c). (ijk @ [int n], EncoderLeaf c)) (enumerate 0 p)"
  unfolding spec_pass_leaves_def
  by (rule nth_map_enumerate [of "\<lambda>n c. (ijk @ [int n], EncoderLeaf c)" p])

lemma pass_yields:
  assumes "length ijk = 3"
  shows "yields (ReplayRenderPass_iterateCommands p ijk) = filter enumerated (spec_pass_leaves ijk p)"
proof -
  have "filter enumerated (map (\<lambda>(n, c). (ijk @ [int n], EncoderLeaf c)) (enumerate l cs))
          = filter (\<lambda>(p, leaf). case leaf of EncoderLeaf c \<Rightarrow> passEnumerated c | _ \<Rightarrow> False)
              (map (\<lambda>(n, c). (ijk @ [int n], EncoderLeaf c)) (enumerate l cs))" for l cs
    using assms by (induction cs arbitrary: l) simp_all
  then show ?thesis
    by (simp add: ReplayRenderPass_iterateCommands_def passIterateFrom_yields spec_pass_leaves_enumerate)
qed

lemma spec_buffer_leaves_enumerate:
  "spec_buffer_leaves ij cmds = concat (map (\<lambda>(k, c). spec_buffer_item ij k c) (enumerate 0 cmds))"
  unfolding spec_buffer_leaves_def
  using nth_map_enumerate [of "spec_buffer_item ij" cmds] by simp

lemma bufferIterateFrom_yields:
  assumes "length ij = 2"
  shows "yields (bufferIterateFrom ij k cs) =
           filter enumerated (concat (map (\<lambda>(k, c). spec_buffer_item ij k c) (enumerate k cs)))"
proof (induction cs arbitrary: k)
  case Nil
  then show ?case by simp
next
  case (Cons c cs)
  have head: "yields (case c of
        RenderPass renderPass \<Rightarrow> ReplayRenderPass_iterateCommands renderPass (ij @ [int k])
      | _ \<Rightarrow>
          if bufferEnumerated c then [Yield (ij @ [int k]) (EncoderLeaf c)]
          else [IterAssert (''Unhandled command encoder command type '' @ quoted (name c))])
      = filter enumerated (spec_buffer_item ij k c)"
    using assms by (cases c) (simp_all add: spec_buffer_item_def pass_yields)
  show ?case using Cons head by (simp add: yields_append)
qed

lemma buffer_yields:
  assumes "length ij = 2"
  shows "yields (ReplayCommandBuffer_iterateCommands cb ij)
           = filter enumerated (spec_buffer_leaves ij (cb_commands cb))"
  using bufferIterateFrom_yields [OF assms, of 0 "cb_commands cb"]
  by (simp add: ReplayCommandBuffer_iterateCommands_def spec_buffer_leaves_enumerate)

lemma passIterateFrom_no_throw: "\<not> list_ex is_throw (passIterateFrom ijk l cs)"
  by (induction cs arbitrary: l) simp_all

lemma bufferIterateFrom_no_throw: "\<not> list_ex is_throw (bufferIterateFrom ij k cs)"
proof (induction cs arbitrary: k)
  case Nil
  then show ?case by simp
next
  case (Cons c cs)
  then show ?case
    using passIterateFrom_no_throw
    by (cases c) (simp_all add: ReplayRenderPass_iterateCommands_def)
qed

lemma submitIterateFrom_yields:
  assumes "None \<notin> set cbs"
  shows "yields (submitIterateFrom i j cbs)
           = filter enumerated (concat (map (\<lambda>(j, cb). spec_submit_item i j cb) (enumerate j cbs)))
         \<and> \<not> list_ex is_throw (submitIterateFrom i j cbs)"
  using assms
proof (induction cbs arbitrary: j)
  case Nil
  then show ?case by simp
next
  case (Cons cb cbs)
  then obtain b where b: "cb = Some b" by (cases cb) auto
  have "yields (ReplayCommandBuffer_iterateCommands b [int i, int j])
          = filter enumerated (spec_submit_item i j cb)"
    using b buffer_yields [of "[int i, int j]" b] by (simp add: spec_submit_item_def)
  moreover have "\<not> list_ex is_throw (ReplayCommandBuffer_iterateCommands b [int i, int j])"
    using bufferIterateFrom_no_throw by (simp add: ReplayCommandBuffer_iterateCommands_def)
  ultimately show ?case using Cons b by (simp add: yields_append)
qed

lemma spec_queue_item_submit:
  "spec_queue_item i (QueueSubmit q cbs)
     = concat (map (\<lambda>(j, cb). spec_submit_item i j cb) (enumerate 0 cbs))"
  unfolding spec_queue_item_def
  using nth_map_enumerate [of "spec_submit_item i" cbs] by simp

lemma spec_leaves_enumerate:
  "spec_leaves cmds = concat (map (\<lambda>(i, c). spec_queue_item i c) (enumerate 0 cmds))"
  unfolding spec_leaves_def
  using nth_map_enumerate [of spec_queue_item cmds] by simp

lemma queueIterateFrom_yields:
  assumes "submits_defined cmds"
  shows "yields (queueIterateFrom i cmds)
           = filter enumerated (concat (map (\<lambda>(i, c). spec_queue_item i c) (enumerate i cmds)))"
  using assms
proof (induction cmds arbitrary: i)
  case Nil
  then show ?case by simp
next
  case (Cons c cmds)
  let ?es = "case c of
                  QueueSubmit queue cbs \<Rightarrow> submitIterateFrom i 0 cbs
                | _ \<Rightarrow>
                    if queueEnumerated c then [Yield [int i] (QueueLeaf c)]
                    else [IterAssert (''Unhandled command type '' @ quoted (queueName c))]"
  have rest: "submits_defined cmds" using Cons.prems by (simp add: submits_defined_def)
  have head: "yields ?es = filter enumerated (spec_queue_item i c) \<and> \<not> list_ex is_throw ?es"
  proof (cases c)
    case (QueueSubmit q cbs)
    then have "None \<notin> set cbs" using Cons.prems by (simp add: submits_defined_def)
    from submitIterateFrom_yields [OF this, of i 0] show ?thesis
      using QueueSubmit by (simp add: spec_queue_item_submit)
  qed (simp_all add: spec_queue_item_def)
  show ?case using head Cons.IH [OF rest, of "Suc i"] by (simp add: Let_def yields_append)
qed

text \<open>
  C7, as the claim states it, fails. The tree below is what resolution makes of a trace with
  a present, a submit of two command buffers and a command of an unknown kind, the second
  command buffer holding a render pass with a \<^verbatim>\<open>setScissorRect\<close>. It has eight leaf
  commands; the enumerator yields six pairs: nothing for the command at \<open>[1, 1, 0, 1]\<close>
  and nothing for the one at \<open>[2]\<close>.
\<close>

theorem enumerator_skips_leaves_counterexample:
  "fst (consumeBuffer example_session []
          [BeginRenderPass example_begin, SetScissorRect 0 0 1 1, Draw 3 1 0 0, EndPass, PopDebugGroup]
          example_world)
     = Inr [RenderPass example_scissor_pass, PopDebugGroup] \<and>
   fst (loadCommands example_registry
          [TracePresent 1 0, TraceQueueSubmit 1 [1, 2], TraceOtherCommand ''foo''] example_world)
     = Inr (commands example_tree) \<and>
   map fst (spec_leaves (commands example_tree))
     = [[0], [1, 0, 0], [1, 1, 0, 0], [1, 1, 0, 1], [1, 1, 0, 2], [1, 1, 0, 3], [1, 1, 1], [2]] \<and>
   map fst (yields (iterateCommands example_tree))
     = [[0], [1, 0, 0], [1, 1, 0, 0], [1, 1, 0, 2], [1, 1, 0, 3], [1, 1, 1]]"
proof -
  have a: "fst (consumeBuffer example_session []
          [BeginRenderPass example_begin, SetScissorRect 0 0 1 1, Draw 3 1 0 0, EndPass, PopDebugGroup]
          example_world)
     = Inr [RenderPass example_scissor_pass, PopDebugGroup]"
    by (simp add: example_begin_resolves ReplayRenderPass_consumeCommands_def
        example_scissor_pass_def)
  have b: "fst (loadCommands example_registry
          [TracePresent 1 0, TraceQueueSubmit 1 [1, 2], TraceOtherCommand ''foo''] example_world)
     = Inr (commands example_tree)"
    by (simp add: example_registry_def example_tree_def example_session_def)
  have c: "map fst (spec_leaves (commands example_tree))
     = [[0], [1, 0, 0], [1, 1, 0, 0], [1, 1, 0, 1], [1, 1, 0, 2], [1, 1, 0, 3], [1, 1, 1], [2]]"
    by (simp add: example_tree_def spec_leaves_def spec_queue_item_def spec_submit_item_def
        spec_buffer_leaves_def spec_buffer_item_def spec_pass_leaves_def example_buffer_a_def
        example_scissor_pass_def upt_rec)
  have d: "map fst (yields (iterateCommands example_tree))
     = [[0], [1, 0, 0], [1, 1, 0, 0], [1, 1, 0, 2], [1, 1, 0, 3], [1, 1, 1]]"
    by (simp add: example_tree_def iterateCommands_def ReplayCommandBuffer_iterateCommands_def
        ReplayRenderPass_iterateCommands_def example_buffer_a_def example_scissor_pass_def)
  show ?thesis using a b c d by blast
qed

text \<open>
  C7, amended: for every resolved command tree in which no command buffer of a submit is
  undefined, the pairs the enumerator yields are the leaves of the tree, each at its path
  under the addressing scheme and in document order, restricted to the leaves the
  enumerator has a yielding case for; a leaf of another kind (a 'bad-command', a command the
  resolver kept without a case for it, \<^verbatim>\<open>setScissorRect\<close> in a pass) yields nothing. The
  sequence is a list, no longer than the list of leaves.
\<close>

theorem enumerator_yields_enumerated_leaves:
  assumes "submits_defined (commands replay)"
  shows "yields (iterateCommands replay) = filter enumerated (spec_leaves (commands replay)) \<and>
         length (yields (iterateCommands replay)) \<le> length (spec_leaves (commands replay))"
  using queueIterateFrom_yields [OF assms, of 0]
  by (simp add: iterateCommands_def spec_leaves_enumerate)

theorem enumerator_yields_enumerated_leaves_witness:
  "submits_defined (commands example_tree) \<and>
   yields (iterateCommands example_tree) = filter enumerated (spec_leaves (commands example_tree)) \<and>
   map fst (filter enumerated (spec_leaves (commands example_tree)))
     = [[0], [1, 0, 0], [1, 1, 0, 0], [1, 1, 0, 2], [1, 1, 0, 3], [1, 1, 1]]"
proof -
  have h: "submits_defined (commands example_tree)"
    by (simp add: submits_defined_def example_tree_def)
  have d: "map fst (yields (iterateCommands example_tree))
     = [[0], [1, 0, 0], [1, 1, 0, 0], [1, 1, 0, 2], [1, 1, 0, 3], [1, 1, 1]]"
    by (simp add: example_tree_def iterateCommands_def ReplayCommandBuffer_iterateCommands_def
        ReplayRenderPass_iterateCommands_def example_buffer_a_def example_scissor_pass_def)
  show ?thesis
    using h d enumerator_yields_enumerated_leaves [OF h] by simp
qed

subsection \<open>Usage flags and destroyed textures\<close>

lemma usage_bits_or: "usage_bits (a OR b) = usage_bits a \<union> usage_bits b"
  by (auto simp: usage_bits_def bit_or_iff)

lemma getData_calls: "calls (snd (getData replay d w)) = calls w"
  by (simp add: getData_def console_assert_def split: option.splits)

lemma loadSubResources_calls:
  "\<exists>new. calls (snd (loadSubResources replay this xs w)) = calls w @ new \<and>
         filter is_destroy new = [] \<and> created_usages new = []"
proof (induction xs arbitrary: w)
  case Nil
  then show ?case by simp
next
  case (Cons x xs)
  show ?case
  proof (cases "getData replay (tid_data x) w")
    case (Pair res w1)
    have c1: "calls w1 = calls w"
      using getData_calls [of replay "tid_data x" w] Pair by simp
    show ?thesis
    proof (cases res)
      case (Inl e)
      then show ?thesis using Pair c1 by simp
    next
      case (Inr dat)
      let ?c = "WriteTexture (QueueOf (dev_webgpuObject (tex_device this)))
                  (tex_webgpuObject this) (tid_mipLevel x) dat (tid_bytesPerRow x)
                  (max 1 (js_shr (height (tex_size this)) (tid_mipLevel x)))
                  \<lparr>width = max 1 (js_shr (width (tex_size this)) (tid_mipLevel x)),
                   height = max 1 (js_shr (height (tex_size this)) (tid_mipLevel x)),
                   depthOrArrayLayers = depthOrArrayLayers (tex_size this)\<rparr>"
      from Cons.IH [of "gpu_call ?c w1"] obtain new where
        n: "calls (snd (loadSubResources replay this xs (gpu_call ?c w1)))
              = calls (gpu_call ?c w1) @ new"
           "filter is_destroy new = []" "created_usages new = []"
        by blast
      have "calls (snd (loadSubResources replay this (x # xs) w)) = calls w @ (?c # new)"
        using Pair Inr n(1) c1 by (simp add: Let_def gpu_call_def)
      moreover have "filter is_destroy (?c # new) = []" using n(2) by simp
      moreover have "created_usages (?c # new) = []" using n(3) by simp
      ultimately show ?thesis by blast
    qed
  qed
qed

lemma loadInitialData_calls:
  "\<exists>new. calls (snd (loadInitialData replay this xs w)) = calls w @ new \<and>
         filter is_destroy new = [] \<and> created_usages new = []"
  using loadSubResources_calls [of replay this xs w]
  by (simp add: loadInitialData_def console_warn_def)

lemma ReplayTexture_new_with_data:
  assumes "map_of (devices replay) (tt_deviceSerial desc) = Some device"
      and "tt_initialData desc = Some xs"
  shows "\<exists>d new. calls (snd (ReplayTexture_new replay desc w))
             = calls w @ CreateTexture (dev_webgpuObject device) d (nextHandle w) # new \<and>
           txd_usage d = tt_usage desc OR GPUTextureUsage_COPY_SRC OR GPUTextureUsage_COPY_DST
                           OR GPUTextureUsage_TEXTURE_BINDING \<and>
           filter is_destroy new = [] \<and> created_usages new = []"
proof -
  let ?d = "\<lparr>txd_format = tt_format desc,
             txd_usage = tt_usage desc OR GPUTextureUsage_COPY_SRC OR GPUTextureUsage_COPY_DST
                           OR GPUTextureUsage_TEXTURE_BINDING,
             txd_size = tt_size desc, txd_dimension = tt_dimension desc,
             txd_mipLevelCount = tt_mipLevelCount desc,
             txd_sampleCount = tt_sampleCount desc,
             txd_viewFormats = tt_viewFormats desc\<rparr>"
  let ?self = "\<lparr>tex_device = device, tex_size = tt_size desc, tex_format = tt_format desc,
                tex_sampleCount = tt_sampleCount desc,
                tex_mipLevelCount = tt_mipLevelCount desc,
                tex_dimension = (case tt_dimension desc of None \<Rightarrow> ''2d'' | Some d \<Rightarrow> d),
                tex_swapChainId = tt_swapChainId desc, tex_webgpuObject = nextHandle w\<rparr>"
  let ?w1 = "snd (gpu_create (CreateTexture (dev_webgpuObject device) ?d) w)"
  obtain new where n: "calls (snd (loadInitialData replay ?self xs ?w1)) = calls ?w1 @ new"
      "filter is_destroy new = []" "created_usages new = []"
    using loadInitialData_calls by blast
  have "calls (snd (ReplayTexture_new replay desc w))
          = calls (snd (loadInitialData replay ?self xs ?w1))"
    using assms
    by (simp add: ReplayTexture_new_def Let_def gpu_create_def split: prod.splits sum.splits)
  then have "calls (snd (ReplayTexture_new replay desc w))
               = calls w @ CreateTexture (dev_webgpuObject device) ?d (nextHandle w) # new"
    using n(1) by (simp add: gpu_create_def)
  moreover have "txd_usage ?d = tt_usage desc OR GPUTextureUsage_COPY_SRC
                   OR GPUTextureUsage_COPY_DST OR GPUTextureUsage_TEXTURE_BINDING"
    by simp
  ultimately show ?thesis using n(2,3) by blast
qed

text \<open>
  With every data blob present, the loop of \<^verbatim>\<open>loadInitialData\<close> returns and issues one
  \<^verbatim>\<open>writeTexture\<close> per subresource, in the order of the list.
\<close>

lemma loadSubResources_writes:
  assumes "map (\<lambda>sub. map_of (data replay) (td_serial (tid_data sub))) xs = map Some dats"
  shows "fst (loadSubResources replay this xs w) = Inr () \<and>
         calls (snd (loadSubResources replay this xs w))
           = calls w @ map2 (\<lambda>sub dat.
               WriteTexture (QueueOf (dev_webgpuObject (tex_device this))) (tex_webgpuObject this)
                 (tid_mipLevel sub) dat (tid_bytesPerRow sub)
                 (max 1 (js_shr (height (tex_size this)) (tid_mipLevel sub)))
                 \<lparr>width = max 1 (js_shr (width (tex_size this)) (tid_mipLevel sub)),
                  height = max 1 (js_shr (height (tex_size this)) (tid_mipLevel sub)),
                  depthOrArrayLayers = depthOrArrayLayers (tex_size this)\<rparr>) xs dats"
  using assms
proof (induction xs arbitrary: dats w)
  case Nil
  then show ?case by simp
next
  case (Cons x xs)
  from Cons.prems obtain dat rest where
    d: "dats = dat # rest" "map_of (data replay) (td_serial (tid_data x)) = Some dat"
       "map (\<lambda>sub. map_of (data replay) (td_serial (tid_data sub))) xs = map Some rest"
    by (cases dats) auto
  show ?case
    using d(1,2) Cons.IH [OF d(3)]
    by (simp add: getData_def Let_def gpu_call_def console_assert_def)
qed

text \<open>
  A constructor call on a descriptor with initial data is the creation followed by
  \<^verbatim>\<open>loadInitialData\<close> on the wrapper of the created texture.
\<close>

lemma ReplayTexture_new_loads:
  assumes "map_of (devices replay) (tt_deviceSerial desc) = Some device"
      and "tt_initialData desc = Some xs"
  shows "\<exists>d this w1.
           calls w1 = calls w @ [CreateTexture (dev_webgpuObject device) d (nextHandle w)] \<and>
           tex_device this = device \<and> tex_webgpuObject this = nextHandle w \<and>
           tex_size this = tt_size desc \<and> tex_sampleCount this = tt_sampleCount desc \<and>
           tex_dimension this = (case tt_dimension desc of None \<Rightarrow> ''2d'' | Some d \<Rightarrow> d) \<and>
           calls (snd (ReplayTexture_new replay desc w))
             = calls (snd (loadInitialData replay this xs w1)) \<and>
           (fst (loadInitialData replay this xs w1) = Inr ()
              \<longrightarrow> fst (ReplayTexture_new replay desc w) = Inr this)"
proof -
  let ?d = "\<lparr>txd_format = tt_format desc,
             txd_usage = tt_usage desc OR GPUTextureUsage_COPY_SRC OR GPUTextureUsage_COPY_DST
                           OR GPUTextureUsage_TEXTURE_BINDING,
             txd_size = tt_size desc, txd_dimension = tt_dimension desc,
             txd_mipLevelCount = tt_mipLevelCount desc,
             txd_sampleCount = tt_sampleCount desc,
             txd_viewFormats = tt_viewFormats desc\<rparr>"
  let ?self = "\<lparr>tex_device = device, tex_size = tt_size desc, tex_format = tt_format desc,
                tex_sampleCount = tt_sampleCount desc,
                tex_mipLevelCount = tt_mipLevelCount desc,
                tex_dimension = (case tt_dimension desc of None \<Rightarrow> ''2d'' | Some d \<Rightarrow> d),
                tex_swapChainId = tt_swapChainId desc, tex_webgpuObject = nextHandle w\<rparr>"
  let ?w1 = "snd (gpu_create (CreateTexture (dev_webgpuObject device) ?d) w)"
  have a: "calls ?w1 = calls w @ [CreateTexture (dev_webgpuObject device) ?d (nextHandle w)]"
    by (simp add: gpu_create_def)
  have b: "calls (snd (ReplayTexture_new replay desc w))
          = calls (snd (loadInitialData replay ?self xs ?w1))"
    using assms
    by (simp add: ReplayTexture_new_def Let_def gpu_create_def split: prod.splits sum.splits)
  have c: "fst (loadInitialData replay ?self xs ?w1) = Inr ()
             \<longrightarrow> fst (ReplayTexture_new replay desc w) = Inr ?self"
    using assms
    by (simp add: ReplayTexture_new_def Let_def gpu_create_def split: prod.splits sum.splits)
  have "calls ?w1 = calls w @ [CreateTexture (dev_webgpuObject device) ?d (nextHandle w)] \<and>
           tex_device ?self = device \<and> tex_webgpuObject ?self = nextHandle w \<and>
           tex_size ?self = tt_size desc \<and> tex_sampleCount ?self = tt_sampleCount desc \<and>
           tex_dimension ?self = (case tt_dimension desc of None \<Rightarrow> ''2d'' | Some d \<Rightarrow> d) \<and>
           calls (snd (ReplayTexture_new replay desc w))
             = calls (snd (loadInitialData replay ?self xs ?w1)) \<and>
           (fst (loadInitialData replay ?self xs ?w1) = Inr ()
              \<longrightarrow> fst (ReplayTexture_new replay desc w) = Inr ?self)"
    using a b c by simp
  then show ?thesis by blast
qed

text \<open>
  C10, as the claim states it, fails: a buffer recorded with usage COPY_SRC | COPY_DST (12) is
  created with exactly that usage, so the created flag set is not a strict superset of the
  recorded one.
\<close>

theorem created_usage_not_strict_counterexample:
  "created_usages (calls (snd (ReplayBuffer_new example_replay example_buffer_desc example_world)))
     = [tb_usage example_buffer_desc] \<and>
   \<not> (\<exists>u \<in> set (created_usages
                (calls (snd (ReplayBuffer_new example_replay example_buffer_desc example_world)))).
         usage_bits (tb_usage example_buffer_desc) \<subset> usage_bits u)"
  by (simp add: ReplayBuffer_new_def example_replay_def example_buffer_desc_def
      example_world_def example_device_def gpu_create_def console_assert_def
      GPUBufferUsage_COPY_SRC_def GPUBufferUsage_COPY_DST_def)

text \<open>
  C10, amended: for every buffer descriptor and every texture descriptor whose device
  resolves, the constructor makes one creation call, and the flag set it asks for is the
  recorded flag set together with COPY_SRC and COPY_DST (buffers) or COPY_SRC, COPY_DST and
  TEXTURE_BINDING (textures): a superset of the recorded usage, equal to it when the recorded
  usage already holds the added flags.
\<close>

theorem created_usage_superset:
  assumes "map_of (devices replay) (tb_deviceSerial bdesc) = Some bdevice"
      and "map_of (devices replay) (tt_deviceSerial tdesc) = Some tdevice"
  shows "(\<exists>new u. calls (snd (ReplayBuffer_new replay bdesc w)) = calls w @ new \<and>
            created_usages new = [u] \<and>
            usage_bits u = usage_bits (tb_usage bdesc) \<union> usage_bits GPUBufferUsage_COPY_SRC
                             \<union> usage_bits GPUBufferUsage_COPY_DST \<and>
            usage_bits (tb_usage bdesc) \<subseteq> usage_bits u) \<and>
         (\<exists>new u. calls (snd (ReplayTexture_new replay tdesc w)) = calls w @ new \<and>
            created_usages new = [u] \<and>
            usage_bits u = usage_bits (tt_usage tdesc) \<union> usage_bits GPUTextureUsage_COPY_SRC
                             \<union> usage_bits GPUTextureUsage_COPY_DST
                             \<union> usage_bits GPUTextureUsage_TEXTURE_BINDING \<and>
            usage_bits (tt_usage tdesc) \<subseteq> usage_bits u)"
proof
  show "\<exists>new u. calls (snd (ReplayBuffer_new replay bdesc w)) = calls w @ new \<and>
            created_usages new = [u] \<and>
            usage_bits u = usage_bits (tb_usage bdesc) \<union> usage_bits GPUBufferUsage_COPY_SRC
                             \<union> usage_bits GPUBufferUsage_COPY_DST \<and>
            usage_bits (tb_usage bdesc) \<subseteq> usage_bits u"
    using assms(1)
    by (auto simp add: ReplayBuffer_new_def Let_def gpu_create_def gpu_call_def getData_def
        console_assert_def usage_bits_or split: option.splits prod.splits sum.splits)
next
  show "\<exists>new u. calls (snd (ReplayTexture_new replay tdesc w)) = calls w @ new \<and>
            created_usages new = [u] \<and>
            usage_bits u = usage_bits (tt_usage tdesc) \<union> usage_bits GPUTextureUsage_COPY_SRC
                             \<union> usage_bits GPUTextureUsage_COPY_DST
                             \<union> usage_bits GPUTextureUsage_TEXTURE_BINDING \<and>
            usage_bits (tt_usage tdesc) \<subseteq> usage_bits u"
  proof (cases "tt_initialData tdesc")
    case None
    then show ?thesis using assms(2)
      by (auto simp add: ReplayTexture_new_def Let_def gpu_create_def gpu_call_def usage_bits_or)
  next
    case (Some xs)
    from ReplayTexture_new_with_data [OF assms(2) Some, of w] obtain d new where
      n: "calls (snd (ReplayTexture_new replay tdesc w))
            = calls w @ CreateTexture (dev_webgpuObject tdevice) d (nextHandle w) # new"
         "txd_usage d = tt_usage tdesc OR GPUTextureUsage_COPY_SRC OR GPUTextureUsage_COPY_DST
                          OR GPUTextureUsage_TEXTURE_BINDING"
         "created_usages new = []"
      by blast
    have "created_usages (CreateTexture (dev_webgpuObject tdevice) d (nextHandle w) # new)
            = [txd_usage d]"
      using n(3) by simp
    then show ?thesis using n(1,2) by (auto simp: usage_bits_or)
  qed
qed

theorem created_usage_superset_witness:
  "map_of (devices example_replay) (tb_deviceSerial example_buffer_desc) = Some example_device \<and>
   map_of (devices example_replay) (tt_deviceSerial example_texture_desc) = Some example_device \<and>
   (\<exists>new u. calls (snd (ReplayTexture_new example_replay example_texture_desc example_world))
              = calls example_world @ new \<and>
            created_usages new = [u] \<and>
            usage_bits u = usage_bits (tt_usage example_texture_desc)
                             \<union> usage_bits GPUTextureUsage_COPY_SRC
                             \<union> usage_bits GPUTextureUsage_COPY_DST
                             \<union> usage_bits GPUTextureUsage_TEXTURE_BINDING)"
proof -
  have b: "map_of (devices example_replay) (tb_deviceSerial example_buffer_desc) = Some example_device"
    by (simp add: example_replay_def example_buffer_desc_def)
  have t: "map_of (devices example_replay) (tt_deviceSerial example_texture_desc) = Some example_device"
    by (simp add: example_replay_def example_texture_desc_def)
  show ?thesis
    using b t created_usage_superset [OF b t, of example_world] by blast
qed

text \<open>
  C9, as the claim states it, fails: a descriptor recorded as destroyed that carries initial
  data gets its initial data written and is not destroyed.
\<close>

theorem destroyed_texture_with_data_counterexample:
  "tt_state example_texture_with_data = ''destroyed'' \<and>
   filter is_destroy
     (calls (snd (ReplayTexture_new example_replay example_texture_with_data example_world))) = [] \<and>
   filter is_write
     (calls (snd (ReplayTexture_new example_replay example_texture_with_data example_world)))
     = [WriteTexture (QueueOf 100) 0 0 [0, 0, 0, 0] 4 1
          \<lparr>width = 1, height = 1, depthOrArrayLayers = 1\<rparr>]"
  by (simp add: ReplayTexture_new_def example_replay_def example_texture_with_data_def
      example_texture_desc_def example_world_def example_device_def gpu_create_def gpu_call_def
      loadInitialData_def getData_def console_assert_def js_shr_def)

text \<open>
  C9, amended: for every texture descriptor whose recorded state is 'destroyed' and whose
  device resolves, if the descriptor carries no initial data the constructor's calls are the
  creation followed at once by the destruction of the created texture, and nothing else (no
  write). If it carries initial data, the constructor's calls are the creation followed by
  the calls of the initial-data load, none of which is a destruction: when the texture is
  single-sampled and 2d and every data blob is present these are one \<^verbatim>\<open>writeTexture\<close> per
  subresource, in order, to the created texture, with the mip level, the blob, the row pitch
  and the size of that mip level, and the constructor returns the wrapper of the created
  texture; when the sample count is not 1 or the dimension is not 2d there is no call after
  the creation.
\<close>

theorem destroyed_texture_calls:
  assumes "tt_state desc = ''destroyed''"
      and "map_of (devices replay) (tt_deviceSerial desc) = Some device"
  shows "(tt_initialData desc = None \<longrightarrow>
            (\<exists>d. calls (snd (ReplayTexture_new replay desc w))
                    = calls w @ [CreateTexture (dev_webgpuObject device) d (nextHandle w),
                                 DestroyTexture (nextHandle w)])) \<and>
         (\<forall>xs. tt_initialData desc = Some xs \<longrightarrow>
            (\<exists>d new.
               calls (snd (ReplayTexture_new replay desc w))
                 = calls w @ CreateTexture (dev_webgpuObject device) d (nextHandle w) # new \<and>
               filter is_destroy new = [] \<and>
               (tt_sampleCount desc \<noteq> 1 \<or> tt_dimension desc \<notin> {None, Some ''2d''}
                  \<longrightarrow> new = []) \<and>
               (\<forall>dats. tt_sampleCount desc = 1 \<and> tt_dimension desc \<in> {None, Some ''2d''} \<and>
                       map (\<lambda>sub. map_of (data replay) (td_serial (tid_data sub))) xs
                         = map Some dats \<longrightarrow>
                  new = map2 (\<lambda>sub dat.
                          WriteTexture (QueueOf (dev_webgpuObject device)) (nextHandle w)
                            (tid_mipLevel sub) dat (tid_bytesPerRow sub)
                            (max 1 (js_shr (height (tt_size desc)) (tid_mipLevel sub)))
                            \<lparr>width = max 1 (js_shr (width (tt_size desc)) (tid_mipLevel sub)),
                             height = max 1 (js_shr (height (tt_size desc)) (tid_mipLevel sub)),
                             depthOrArrayLayers = depthOrArrayLayers (tt_size desc)\<rparr>) xs dats \<and>
                  (\<exists>t. fst (ReplayTexture_new replay desc w) = Inr t \<and>
                       tex_webgpuObject t = nextHandle w))))"
proof (intro conjI allI impI)
  assume "tt_initialData desc = None"
  then show "\<exists>d. calls (snd (ReplayTexture_new replay desc w))
                    = calls w @ [CreateTexture (dev_webgpuObject device) d (nextHandle w),
                                 DestroyTexture (nextHandle w)]"
    using assms by (simp add: ReplayTexture_new_def Let_def gpu_create_def gpu_call_def)
next
  fix xs
  assume xs: "tt_initialData desc = Some xs"
  from ReplayTexture_new_loads [OF assms(2) xs, of w] obtain d this w1 where
    l: "calls w1 = calls w @ [CreateTexture (dev_webgpuObject device) d (nextHandle w)]"
       "tex_device this = device" "tex_webgpuObject this = nextHandle w"
       "tex_size this = tt_size desc" "tex_sampleCount this = tt_sampleCount desc"
       "tex_dimension this = (case tt_dimension desc of None \<Rightarrow> ''2d'' | Some d \<Rightarrow> d)"
       "calls (snd (ReplayTexture_new replay desc w))
          = calls (snd (loadInitialData replay this xs w1))"
       "fst (loadInitialData replay this xs w1) = Inr ()
          \<longrightarrow> fst (ReplayTexture_new replay desc w) = Inr this"
    by blast
  from loadInitialData_calls [of replay this xs w1] obtain new where
    n: "calls (snd (loadInitialData replay this xs w1)) = calls w1 @ new"
       "filter is_destroy new = []"
    by blast
  have c: "calls (snd (ReplayTexture_new replay desc w))
             = calls w @ CreateTexture (dev_webgpuObject device) d (nextHandle w) # new"
    using l(1,7) n(1) by simp
  have dim: "tt_dimension desc \<in> {None, Some ''2d''} \<longleftrightarrow> tex_dimension this = ''2d''"
    using l(6) by (cases "tt_dimension desc") auto
  have unsupported: "tt_sampleCount desc \<noteq> 1 \<or> tt_dimension desc \<notin> {None, Some ''2d''}
                       \<longrightarrow> new = []"
  proof
    assume "tt_sampleCount desc \<noteq> 1 \<or> tt_dimension desc \<notin> {None, Some ''2d''}"
    then have "tex_sampleCount this \<noteq> 1 \<or> tex_dimension this \<noteq> ''2d''"
      using l(5) dim by auto
    then have "calls (snd (loadInitialData replay this xs w1)) = calls w1"
      by (auto simp add: loadInitialData_def console_warn_def)
    then show "new = []" using n(1) by simp
  qed
  have supported: "\<forall>dats. tt_sampleCount desc = 1 \<and> tt_dimension desc \<in> {None, Some ''2d''} \<and>
                       map (\<lambda>sub. map_of (data replay) (td_serial (tid_data sub))) xs
                         = map Some dats \<longrightarrow>
                  new = map2 (\<lambda>sub dat.
                          WriteTexture (QueueOf (dev_webgpuObject device)) (nextHandle w)
                            (tid_mipLevel sub) dat (tid_bytesPerRow sub)
                            (max 1 (js_shr (height (tt_size desc)) (tid_mipLevel sub)))
                            \<lparr>width = max 1 (js_shr (width (tt_size desc)) (tid_mipLevel sub)),
                             height = max 1 (js_shr (height (tt_size desc)) (tid_mipLevel sub)),
                             depthOrArrayLayers = depthOrArrayLayers (tt_size desc)\<rparr>) xs dats \<and>
                  (\<exists>t. fst (ReplayTexture_new replay desc w) = Inr t \<and>
                       tex_webgpuObject t = nextHandle w)"
  proof (intro allI impI)
    fix dats
    assume a: "tt_sampleCount desc = 1 \<and> tt_dimension desc \<in> {None, Some ''2d''} \<and>
               map (\<lambda>sub. map_of (data replay) (td_serial (tid_data sub))) xs = map Some dats"
    then have s: "tex_sampleCount this = 1" "tex_dimension this = ''2d''"
      using l(5) dim by auto
    have e: "loadInitialData replay this xs w1 = loadSubResources replay this xs w1"
      using s by (simp add: loadInitialData_def)
    from a have m: "map (\<lambda>sub. map_of (data replay) (td_serial (tid_data sub))) xs = map Some dats"
      by simp
    note w = loadSubResources_writes [OF m, of this w1]
    have "calls w1 @ new = calls w1 @ map2 (\<lambda>sub dat.
               WriteTexture (QueueOf (dev_webgpuObject (tex_device this))) (tex_webgpuObject this)
                 (tid_mipLevel sub) dat (tid_bytesPerRow sub)
                 (max 1 (js_shr (height (tex_size this)) (tid_mipLevel sub)))
                 \<lparr>width = max 1 (js_shr (width (tex_size this)) (tid_mipLevel sub)),
                  height = max 1 (js_shr (height (tex_size this)) (tid_mipLevel sub)),
                  depthOrArrayLayers = depthOrArrayLayers (tex_size this)\<rparr>) xs dats"
      using w n(1) e by simp
    then have "new = map2 (\<lambda>sub dat.
                          WriteTexture (QueueOf (dev_webgpuObject device)) (nextHandle w)
                            (tid_mipLevel sub) dat (tid_bytesPerRow sub)
                            (max 1 (js_shr (height (tt_size desc)) (tid_mipLevel sub)))
                            \<lparr>width = max 1 (js_shr (width (tt_size desc)) (tid_mipLevel sub)),
                             height = max 1 (js_shr (height (tt_size desc)) (tid_mipLevel sub)),
                             depthOrArrayLayers = depthOrArrayLayers (tt_size desc)\<rparr>) xs dats"
      using l(2,3,4) by simp
    moreover have "fst (ReplayTexture_new replay desc w) = Inr this"
      using w e l(8) by simp
    ultimately show "new = map2 (\<lambda>sub dat.
                          WriteTexture (QueueOf (dev_webgpuObject device)) (nextHandle w)
                            (tid_mipLevel sub) dat (tid_bytesPerRow sub)
                            (max 1 (js_shr (height (tt_size desc)) (tid_mipLevel sub)))
                            \<lparr>width = max 1 (js_shr (width (tt_size desc)) (tid_mipLevel sub)),
                             height = max 1 (js_shr (height (tt_size desc)) (tid_mipLevel sub)),
                             depthOrArrayLayers = depthOrArrayLayers (tt_size desc)\<rparr>) xs dats \<and>
                  (\<exists>t. fst (ReplayTexture_new replay desc w) = Inr t \<and>
                       tex_webgpuObject t = nextHandle w)"
      using l(3) by blast
  qed
  show "\<exists>d new.
               calls (snd (ReplayTexture_new replay desc w))
                 = calls w @ CreateTexture (dev_webgpuObject device) d (nextHandle w) # new \<and>
               filter is_destroy new = [] \<and>
               (tt_sampleCount desc \<noteq> 1 \<or> tt_dimension desc \<notin> {None, Some ''2d''}
                  \<longrightarrow> new = []) \<and>
               (\<forall>dats. tt_sampleCount desc = 1 \<and> tt_dimension desc \<in> {None, Some ''2d''} \<and>
                       map (\<lambda>sub. map_of (data replay) (td_serial (tid_data sub))) xs
                         = map Some dats \<longrightarrow>
                  new = map2 (\<lambda>sub dat.
                          WriteTexture (QueueOf (dev_webgpuObject device)) (nextHandle w)
                            (tid_mipLevel sub) dat (tid_bytesPerRow sub)
                            (max 1 (js_shr (height (tt_size desc)) (tid_mipLevel sub)))
                            \<lparr>width = max 1 (js_shr (width (tt_size desc)) (tid_mipLevel sub)),
                             height = max 1 (js_shr (height (tt_size desc)) (tid_mipLevel sub)),
                             depthOrArrayLayers = depthOrArrayLayers (tt_size desc)\<rparr>) xs dats \<and>
                  (\<exists>t. fst (ReplayTexture_new replay desc w) = Inr t \<and>
                       tex_webgpuObject t = nextHandle w))"
    using c n(2) unsupported supported by blast
qed

theorem destroyed_texture_calls_witness:
  "tt_state example_texture_desc = ''destroyed'' \<and>
   map_of (devices example_replay) (tt_deviceSerial example_texture_desc) = Some example_device \<and>
   tt_initialData example_texture_desc = None \<and>
   (\<exists>d. calls (snd (ReplayTexture_new example_replay example_texture_desc example_world))
           = calls example_world @ [CreateTexture (dev_webgpuObject example_device) d
                                      (nextHandle example_world),
                                    DestroyTexture (nextHandle example_world)]) \<and>
   tt_state example_texture_with_data = ''destroyed'' \<and>
   tt_initialData example_texture_with_data
     = Some [\<lparr>tid_data = \<lparr>td_serial = 1, td_size = 4\<rparr>, tid_mipLevel = 0, tid_bytesPerRow = 4\<rparr>] \<and>
   tt_sampleCount example_texture_with_data = 1 \<and>
   tt_dimension example_texture_with_data \<in> {None, Some ''2d''} \<and>
   map (\<lambda>sub. map_of (data example_replay) (td_serial (tid_data sub)))
     [\<lparr>tid_data = \<lparr>td_serial = 1, td_size = 4\<rparr>, tid_mipLevel = 0, tid_bytesPerRow = 4\<rparr>]
     = map Some [[0, 0, 0, 0]] \<and>
   (\<exists>d. calls (snd (ReplayTexture_new example_replay example_texture_with_data example_world))
           = calls example_world @
               [CreateTexture (dev_webgpuObject example_device) d (nextHandle example_world),
                WriteTexture (QueueOf 100) 0 0 [0, 0, 0, 0] 4 1
                  \<lparr>width = 1, height = 1, depthOrArrayLayers = 1\<rparr>]) \<and>
   (\<exists>t. fst (ReplayTexture_new example_replay example_texture_with_data example_world) = Inr t \<and>
        tex_webgpuObject t = nextHandle example_world) \<and>
   tt_sampleCount (example_texture_with_data\<lparr>tt_sampleCount := 4\<rparr>) \<noteq> 1 \<and>
   (\<exists>d. calls (snd (ReplayTexture_new example_replay
                      (example_texture_with_data\<lparr>tt_sampleCount := 4\<rparr>) example_world))
           = calls example_world @
               [CreateTexture (dev_webgpuObject example_device) d (nextHandle example_world)])"
proof -
  let ?sub = "\<lparr>tid_data = \<lparr>td_serial = 1, td_size = 4\<rparr>, tid_mipLevel = 0, tid_bytesPerRow = 4\<rparr>"
  have s: "tt_state example_texture_desc = ''destroyed''"
    by (simp add: example_texture_desc_def)
  have d: "map_of (devices example_replay) (tt_deviceSerial example_texture_desc) = Some example_device"
    by (simp add: example_replay_def example_texture_desc_def)
  have n: "tt_initialData example_texture_desc = None"
    by (simp add: example_texture_desc_def)
  have s': "tt_state example_texture_with_data = ''destroyed''"
    by (simp add: example_texture_with_data_def example_texture_desc_def)
  have d': "map_of (devices example_replay) (tt_deviceSerial example_texture_with_data)
              = Some example_device"
    by (simp add: example_replay_def example_texture_with_data_def example_texture_desc_def)
  have n': "tt_initialData example_texture_with_data = Some [?sub]"
    by (simp add: example_texture_with_data_def)
  have c: "tt_sampleCount example_texture_with_data = 1"
    by (simp add: example_texture_with_data_def example_texture_desc_def)
  have m: "tt_dimension example_texture_with_data \<in> {None, Some ''2d''}"
    by (simp add: example_texture_with_data_def example_texture_desc_def)
  have b: "map (\<lambda>sub. map_of (data example_replay) (td_serial (tid_data sub))) [?sub]
             = map Some [[0, 0, 0, 0]]"
    by (simp add: example_replay_def)
  have z: "tt_size example_texture_with_data = \<lparr>width = 1, height = 1, depthOrArrayLayers = 1\<rparr>"
          "dev_webgpuObject example_device = 100" "nextHandle example_world = 0"
    by (simp_all add: example_texture_with_data_def example_texture_desc_def example_device_def
        example_world_def)
  have j: "js_shr 1 0 = 1" by (simp add: js_shr_def)
  from destroyed_texture_calls [OF s d, of example_world] n
  have first: "\<exists>d. calls (snd (ReplayTexture_new example_replay example_texture_desc example_world))
           = calls example_world @ [CreateTexture (dev_webgpuObject example_device) d
                                      (nextHandle example_world),
                                    DestroyTexture (nextHandle example_world)]"
    by blast
  from destroyed_texture_calls [OF s' d', of example_world] n' c m b
  obtain d0 new where
    k: "calls (snd (ReplayTexture_new example_replay example_texture_with_data example_world))
          = calls example_world @
              CreateTexture (dev_webgpuObject example_device) d0 (nextHandle example_world) # new"
       "new = map2 (\<lambda>sub dat.
                 WriteTexture (QueueOf (dev_webgpuObject example_device)) (nextHandle example_world)
                   (tid_mipLevel sub) dat (tid_bytesPerRow sub)
                   (max 1 (js_shr (height (tt_size example_texture_with_data)) (tid_mipLevel sub)))
                   \<lparr>width = max 1 (js_shr (width (tt_size example_texture_with_data))
                                     (tid_mipLevel sub)),
                    height = max 1 (js_shr (height (tt_size example_texture_with_data))
                                      (tid_mipLevel sub)),
                    depthOrArrayLayers = depthOrArrayLayers (tt_size example_texture_with_data)\<rparr>)
               [?sub] [[0, 0, 0, 0]]"
       "\<exists>t. fst (ReplayTexture_new example_replay example_texture_with_data example_world) = Inr t \<and>
            tex_webgpuObject t = nextHandle example_world"
    by blast
  have "new = [WriteTexture (QueueOf 100) 0 0 [0, 0, 0, 0] 4 1
                 \<lparr>width = 1, height = 1, depthOrArrayLayers = 1\<rparr>]"
    using k(2) z j by simp
  then have second: "\<exists>d. calls (snd (ReplayTexture_new example_replay example_texture_with_data
                                       example_world))
           = calls example_world @
               [CreateTexture (dev_webgpuObject example_device) d (nextHandle example_world),
                WriteTexture (QueueOf 100) 0 0 [0, 0, 0, 0] 4 1
                  \<lparr>width = 1, height = 1, depthOrArrayLayers = 1\<rparr>]"
    using k(1) by blast
  let ?multi = "example_texture_with_data\<lparr>tt_sampleCount := 4\<rparr>"
  have s'': "tt_state ?multi = ''destroyed''" using s' by simp
  have d'': "map_of (devices example_replay) (tt_deviceSerial ?multi) = Some example_device"
    using d' by simp
  have n'': "tt_initialData ?multi = Some [?sub]" using n' by simp
  have c'': "tt_sampleCount ?multi \<noteq> 1" by simp
  from destroyed_texture_calls [OF s'' d'', of example_world] n'' c''
  have third: "\<exists>d. calls (snd (ReplayTexture_new example_replay ?multi example_world))
           = calls example_world @
               [CreateTexture (dev_webgpuObject example_device) d (nextHandle example_world)]"
    by blast
  show ?thesis
    using s d n first s' n' c m b second k(3) c'' third by blast
qed

subsection \<open>The load as a whole\<close>

text \<open>The phases only add calls to the call log.\<close>

definition appends :: "(World \<Rightarrow> 'a \<times> World) \<Rightarrow> bool" where
  "appends f = (\<forall>w. \<exists>new. calls (snd (f w)) = calls w @ new)"

lemma appendsI: "(\<And>w. \<exists>new. calls (snd (f w)) = calls w @ new) \<Longrightarrow> appends f"
  by (simp add: appends_def)

lemma appendsD: "appends f \<Longrightarrow> \<exists>new. calls (snd (f w)) = calls w @ new"
  by (simp add: appends_def)


lemma appends_recreateObjectsAsync:
  assumes "\<And>d. appends (mk d)"
  shows "appends (recreateObjectsAsync mk m)"
proof (rule appendsI)
  fix w
  show "\<exists>new. calls (snd (recreateObjectsAsync mk m w)) = calls w @ new"
  proof (induction m arbitrary: w)
    case Nil
    then show ?case by simp
  next
    case (Cons sd m)
    obtain s d where sd: "sd = (s, d)" by (cases sd)
    obtain r w1 where r: "mk d w = (r, w1)" by (cases "mk d w")
    from appendsD [OF assms, of d w] r obtain n1 where n1: "calls w1 = calls w @ n1" by auto
    from Cons [of w1] obtain n2 where n2: "calls (snd (recreateObjectsAsync mk m w1)) = calls w1 @ n2" by blast
    show ?case using sd r n1 n2 by (auto split: prod.splits sum.splits)
  qed
qed









text \<open>A phase that leaves the registries of the layouts and of the pipelines as they are.\<close>

definition keeps :: "phase \<Rightarrow> bool" where
  "keeps p = (\<forall>r w r' w'. p r w = (Inr r', w') \<longrightarrow>
                bindGroupLayouts r' = bindGroupLayouts r \<and> renderPipelines r' = renderPipelines r)"



lemma keeps_recreatePhaseAsync:
  assumes "\<And>x r. bindGroupLayouts (store x r) = bindGroupLayouts r"
      and "\<And>x r. renderPipelines (store x r) = renderPipelines r"
  shows "keeps (recreatePhaseAsync mk dm store)"
  using assms
  by (auto simp: keeps_def recreatePhaseAsync_def split: option.splits prod.splits sum.splits)
















lemma example_load:
  "load example_trace example_world
     = ((Inr example_loaded, example_trace_after), example_world_loaded)"
  by (simp add: load_def example_trace_def example_pipeline_desc_def example_world_def
      emptyReplay_def phasesBeforePipelines_def phasesAfterPipelines_def recreatePhase_def
      recreatePhaseAsync_def implicitLayoutsPhase_def commandsPhase_def
      ReplayAdapter_recreate_def ReplayDevice_recreate_def ReplayQueue_new_def
      ReplayBindGroupLayout_new_def initializeFromImplicitDesc_def ReplayShaderModule_new_def
      ReplayRenderPipeline_recreate_def gpu_create_def Let_def lookup_def
      example_loaded_def example_trace_after_def example_world_loaded_def
      example_pipeline_desc_after_def example_implicit_layout_def)





subsection \<open>What the load does to the trace\<close>

text \<open>
  C8: the code at a failing input. The trace has one render pipeline whose vertex stage names
  shader module 1. After the load, the descriptor of that pipeline in the trace holds the
  wrapper of the shader module in \<^verbatim>\<open>vertex.module\<close>: the trace is not the value that was
  loaded.
\<close>

theorem load_writes_to_trace:
  "snd (fst (load example_trace example_world)) = example_trace_after \<and>
   example_trace_after \<noteq> example_trace \<and>
   to_renderPipelines (t_objects example_trace) = Some [(1, example_pipeline_desc)] \<and>
   to_renderPipelines (t_objects example_trace_after) = Some [(1, example_pipeline_desc_after)] \<and>
   ps_module (trp_vertex example_pipeline_desc) = None \<and>
   ps_module (trp_vertex example_pipeline_desc_after) = Some \<lparr>sm_webgpuObject = 3\<rparr>"
proof -
  have "to_renderPipelines (t_objects example_trace_after)
          \<noteq> to_renderPipelines (t_objects example_trace)"
    by (simp add: example_trace_after_def example_trace_def example_pipeline_desc_after_def
        example_pipeline_desc_def)
  then have "example_trace_after \<noteq> example_trace" by auto
  then show ?thesis
    by (simp add: example_load)
       (simp add: example_trace_after_def example_trace_def example_pipeline_desc_after_def
          example_pipeline_desc_def)
qed

end
